theory Spec2Isabelle
  imports Complex_Main "HOL-Library.Word" "HOL-Library.Multiset"
begin

section \<open>The wait package of toolchain-e2e (testsupport/wait/awaitility.go)\<close>

text \<open>
  A shallow embedding of \<^verbatim>\<open>awaitility.go\<close>. Conventions:
  \<^item> \<^verbatim>\<open>time.Duration\<close> is an \<^verbatim>\<open>int64\<close> count of nanoseconds: a 64-bit word, so
    that \<^verbatim>\<open>6*a.Timeout\<close> wraps as it does in Go;
  \<^item> \<^verbatim>\<open>float64\<close> metric values are reals, compared as reals (NaN is not part of the
    model). A \<^verbatim>\<open>float64\<close> sum rounds: it is the exact sum rounded to a
    \<^verbatim>\<open>float64\<close>, and the rounding of the machine is a parameter;
  \<^item> a Go \<^verbatim>\<open>error\<close> is an \<open>error option\<close>, \<open>None\<close> for \<^verbatim>\<open>nil\<close>;
  \<^item> \<^verbatim>\<open>t.Fatal\<close> and \<^verbatim>\<open>require.NoError\<close> stop the calling test function
    (\<^verbatim>\<open>runtime.Goexit\<close>): a function that may call them returns a \<open>T\<close> value,
    \<open>Ret\<close> is the normal return and \<open>Panic\<close> a run-time panic (a nil pointer
    dereferenced). What \<^verbatim>\<open>t.Log\<close> prints is not modelled;
  \<^item> the remote cluster answers differently at different moments: every call to the
    client and to the metrics endpoint takes the index of the poll attempt that makes it.
\<close>

subsection \<open>Durations and constants\<close>

type_synonym Duration = "64 word"

definition Millisecond :: Duration where
  "Millisecond = 1000000"

definition Second :: Duration where
  "Second = 1000000000"

definition DefaultRetryInterval :: Duration where
  "DefaultRetryInterval = Millisecond * 100"

definition DefaultTimeout :: Duration where
  "DefaultTimeout = Second * 120"

definition ToolchainClusterConditionTimeout :: Duration where
  "ToolchainClusterConditionTimeout = 180 * Second"

subsection \<open>Errors and test outcomes\<close>

text \<open>
  \<open>NotFound\<close> is an API status error for which \<^verbatim>\<open>apierrors.IsNotFound\<close> holds,
  \<open>URLTimeout\<close> a \<^verbatim>\<open>*url.Error\<close> whose \<^verbatim>\<open>Timeout()\<close> holds, \<open>ErrWaitTimeout\<close>
  the error \<^verbatim>\<open>wait.Poll\<close> returns at its deadline; \<open>OtherError\<close> is any other error.
\<close>

datatype error = ErrWaitTimeout | NotFound string | URLTimeout string | OtherError string

fun IsNotFound :: "error \<Rightarrow> bool" where
  "IsNotFound (NotFound m) = True"
| "IsNotFound e = False"

fun IsURLTimeout :: "error \<Rightarrow> bool" where
  "IsURLTimeout (URLTimeout m) = True"
| "IsURLTimeout e = False"

datatype 'a T = Fatal string | RequireFailed error | Panic | Ret 'a

fun bindT :: "'a T \<Rightarrow> ('a \<Rightarrow> 'b T) \<Rightarrow> 'b T" where
  "bindT (Fatal m) f = Fatal m"
| "bindT (RequireFailed e) f = RequireFailed e"
| "bindT Panic f = Panic"
| "bindT (Ret x) f = f x"

fun require_NoError :: "error option \<Rightarrow> unit T" where
  "require_NoError None = Ret ()"
| "require_NoError (Some e) = RequireFailed e"

subsection \<open>The poll engine\<close>

text \<open>
  \<^verbatim>\<open>wait.Poll(interval, timeout, condition)\<close> is the library function of
  \<^verbatim>\<open>k8s.io/apimachinery/pkg/util/wait\<close> that every wait of the package calls. Its
  contract: it tries the condition until the condition returns true, returns an error,
  or the timeout is reached; an error of the condition is returned as it is, the
  deadline gives \<^verbatim>\<open>ErrWaitTimeout\<close>. The poll functions of the package are written
  against this contract: they return \<^verbatim>\<open>false, nil\<close> where they say "keep waiting"
  and \<^verbatim>\<open>false, err\<close> where they give up.

  Real time is outside the model. A clock says how many runs of the condition a pair
  (interval, timeout) admits; it is a parameter of every wait. The condition is always
  run at least once, as the library documents. A condition is a
  closure: it gets the index of the attempt and the variables it captured, and returns
  its (done, err) pair and the captured variables as it left them.
\<close>

type_synonym clock = "Duration \<Rightarrow> Duration \<Rightarrow> nat"

type_synonym 's ConditionFunc = "nat \<Rightarrow> 's \<Rightarrow> ((bool \<times> error option) \<times> 's) T"

fun pollLoop :: "nat \<Rightarrow> nat \<Rightarrow> 's ConditionFunc \<Rightarrow> 's \<Rightarrow> (error option \<times> 's) T" where
  "pollLoop 0 k condition s = Ret (Some ErrWaitTimeout, s)"
| "pollLoop (Suc n) k condition s =
     (case condition k s of
        Fatal m \<Rightarrow> Fatal m
      | RequireFailed e \<Rightarrow> RequireFailed e
      | Panic \<Rightarrow> Panic
      | Ret ((done, err), s') \<Rightarrow>
          (case err of
             Some e \<Rightarrow> Ret (Some e, s')
           | None \<Rightarrow> if done then Ret (None, s') else pollLoop n (Suc k) condition s'))"

definition Poll :: "clock \<Rightarrow> Duration \<Rightarrow> Duration \<Rightarrow> 's ConditionFunc \<Rightarrow> 's \<Rightarrow> (error option \<times> 's) T" where
  "Poll clk interval timeout condition s = pollLoop (max 1 (clk interval timeout)) 0 condition s"

subsection \<open>The Awaitility struct\<close>

text \<open>
  \<^verbatim>\<open>baselineValues\<close> is a Go map: the struct holds a reference to it, \<open>None\<close> for the
  nil map. The maps themselves live in a store, so that two structs can hold the same
  map. The client and the REST configuration are handles to the remote cluster; what
  the cluster answers is the environment below.
\<close>

type_synonym ref = nat

type_synonym mapstore = "ref \<rightharpoonup> (string \<rightharpoonup> real)"

record RestConfig =
  BearerToken :: string

record Awaitility =
  RestConfig :: RestConfig
  ClusterName :: string
  Namespace :: string
  Type :: string
  RetryInterval :: Duration
  Timeout :: Duration
  MetricsURL :: string
  baselineValues :: "ref option"

text \<open>Reading \<^verbatim>\<open>m[key]\<close>: the zero value for a nil map and for a missing key.\<close>

definition mapaccess :: "mapstore \<Rightarrow> ref option \<Rightarrow> string \<Rightarrow> real" where
  "mapaccess h r key =
     (case r of
        None \<Rightarrow> 0
      | Some p \<Rightarrow>
          (case h p of
             None \<Rightarrow> 0
           | Some m \<Rightarrow> (case m key of None \<Rightarrow> 0 | Some v \<Rightarrow> v)))"

text \<open>Writing \<^verbatim>\<open>m[key] = v\<close>: a panic (\<open>None\<close>) on the nil map.\<close>

definition mapassign :: "mapstore \<Rightarrow> ref option \<Rightarrow> string \<Rightarrow> real \<Rightarrow> mapstore option" where
  "mapassign h r key v =
     (case r of
        None \<Rightarrow> None
      | Some p \<Rightarrow>
          (case h p of
             None \<Rightarrow> None
           | Some m \<Rightarrow> Some (h(p \<mapsto> m(key \<mapsto> v)))))"

text \<open>\<^verbatim>\<open>copy\<close>: a new struct, every field assigned from the receiver's.\<close>

definition copy :: "Awaitility \<Rightarrow> Awaitility" where
  "copy a =
     \<lparr>RestConfig = RestConfig a, ClusterName = ClusterName a, Namespace = Namespace a,
      Type = Type a, RetryInterval = RetryInterval a, Timeout = Timeout a,
      MetricsURL = MetricsURL a, baselineValues = baselineValues a\<rparr>"

text \<open>
  The two implementations of the \<^verbatim>\<open>RetryOption\<close> interface, the types
  \<^verbatim>\<open>RetryInterval\<close> and \<^verbatim>\<open>TimeoutOption\<close>.
\<close>

datatype RetryOption = RetryIntervalOption Duration | TimeoutOption Duration

fun apply_option :: "RetryOption \<Rightarrow> Awaitility \<Rightarrow> Awaitility" where
  "apply_option (RetryIntervalOption d) a = a\<lparr>RetryInterval := d\<rparr>"
| "apply_option (TimeoutOption d) a = a\<lparr>Timeout := d\<rparr>"

fun apply_options :: "RetryOption list \<Rightarrow> Awaitility \<Rightarrow> Awaitility" where
  "apply_options [] result = result"
| "apply_options (option # options) result = apply_options options (apply_option option result)"

definition WithRetryOptions :: "Awaitility \<Rightarrow> RetryOption list \<Rightarrow> Awaitility" where
  "WithRetryOptions a options = apply_options options (copy a)"

subsection \<open>Remote objects\<close>

text \<open>
  The API objects, with the fields the package reads. A pod carries what
  \<^verbatim>\<open>util.IsBeingDeleted\<close> and \<^verbatim>\<open>podutils.IsPodReady\<close> say about it, a container
  metric what \<^verbatim>\<open>Usage.Memory().ScaledValue(resource.Kilo)\<close> gives.
\<close>

record Service =
  svcNamespace :: string
  svcName :: string
  svcKind :: string

record ToolchainClusterCondition =
  cType :: string
  cStatus :: string

record ToolchainCluster =
  Name :: string
  Labels :: "string \<rightharpoonup> string"
  Conditions :: "ToolchainClusterCondition list"

record Route =
  IngressHosts :: "string list"
  TLS :: bool

record ContainerMetrics =
  cmName :: string
  MemoryKilo :: int

record PodMetrics =
  Containers :: "ContainerMetrics list"

record Namespace_obj =
  Phase :: string

record Container =
  ctName :: string
  Image :: string

record Deployment =
  AvailableReplicas :: int
  MatchLabels :: "(string \<times> string) list"
  SpecContainers :: "Container list"

record Pod =
  IsBeingDeleted :: bool
  IsPodReady :: bool

definition empty_Service :: Service where
  "empty_Service = \<lparr>svcNamespace = [], svcName = [], svcKind = []\<rparr>"

definition empty_ToolchainCluster :: ToolchainCluster where
  "empty_ToolchainCluster = \<lparr>Name = [], Labels = Map.empty, Conditions = []\<rparr>"

definition empty_Route :: Route where
  "empty_Route = \<lparr>IngressHosts = [], TLS = False\<rparr>"

definition empty_PodMetrics :: PodMetrics where
  "empty_PodMetrics = \<lparr>Containers = []\<rparr>"

definition empty_ContainerMetrics :: ContainerMetrics where
  "empty_ContainerMetrics = \<lparr>cmName = [], MemoryKilo = 0\<rparr>"

definition empty_Deployment :: Deployment where
  "empty_Deployment = \<lparr>AvailableReplicas = 0, MatchLabels = [], SpecContainers = []\<rparr>"

subsection \<open>The environment\<close>

text \<open>
  What the package calls and does not define, as parameters: the clock of
  \<^verbatim>\<open>wait.Poll\<close>; the calls of \<^verbatim>\<open>a.Client\<close> (\<^verbatim>\<open>Get\<close>, \<^verbatim>\<open>List\<close>, \<^verbatim>\<open>Update\<close>,
  \<^verbatim>\<open>Create\<close>, one function for each kind of object, \<open>Inl\<close> the error);
  \<^verbatim>\<open>metrics.GetMetricValue\<close> of package \<^verbatim>\<open>testsupport/metrics\<close>; the readiness check
  \<^verbatim>\<open>status.ValidateComponentConditionReady(status.GetDeploymentStatusConditions(...))\<close>,
  \<open>None\<close> when it finds the deployment ready; \<^verbatim>\<open>http.NewRequest\<close> and the GET of
  the HTTP client, which answers with a status code. Each call takes first the index of
  the poll attempt that makes it. The last parameter is the rounding of a real number
  to a \<^verbatim>\<open>float64\<close> value (IEEE 754, to nearest, ties to even).
\<close>

record env =
  ticks :: clock
  Get_Service :: "nat \<Rightarrow> string \<Rightarrow> string \<Rightarrow> error + Service"
  Get_ToolchainCluster :: "nat \<Rightarrow> string \<Rightarrow> string \<Rightarrow> error + ToolchainCluster"
  List_ToolchainCluster :: "nat \<Rightarrow> string \<Rightarrow> (string \<times> string) list \<Rightarrow> error + ToolchainCluster list"
  Update_ToolchainCluster :: "nat \<Rightarrow> ToolchainCluster \<Rightarrow> error option"
  Get_Route :: "nat \<Rightarrow> string \<Rightarrow> string \<Rightarrow> error + Route"
  Get_PodMetrics :: "nat \<Rightarrow> string \<Rightarrow> string \<Rightarrow> error + PodMetrics"
  Create_Namespace :: "string \<Rightarrow> error option"
  Get_Namespace :: "nat \<Rightarrow> string \<Rightarrow> error + Namespace_obj"
  Get_Deployment :: "nat \<Rightarrow> string \<Rightarrow> string \<Rightarrow> error + Deployment"
  List_Pod :: "nat \<Rightarrow> string \<Rightarrow> (string \<times> string) list \<Rightarrow> error + Pod list"
  DeploymentConditionReady :: "nat \<Rightarrow> string \<Rightarrow> string \<Rightarrow> error option"
  metrics_GetMetricValue :: "nat \<Rightarrow> RestConfig \<Rightarrow> string \<Rightarrow> string \<Rightarrow> string list \<Rightarrow> real \<times> error option"
  http_NewRequest :: "string \<Rightarrow> error option"
  http_Do :: "nat \<Rightarrow> string \<Rightarrow> string option \<Rightarrow> error + nat"
  float64_round :: "real \<Rightarrow> real"

subsection \<open>Metrics: baseline keys and waits\<close>

fun Join :: "string list \<Rightarrow> string \<Rightarrow> string" where
  "Join [] sep = []"
| "Join [x] sep = x"
| "Join (x # y # ys) sep = x @ sep @ Join (y # ys) sep"

definition pairs_message :: string where
  "pairs_message = ''`labelAndValues` must be pairs of labels and values''"

definition baselineKey :: "string \<Rightarrow> string list \<Rightarrow> string T" where
  "baselineKey name labelAndValues =
     (if length labelAndValues mod 2 \<noteq> 0 then Fatal pairs_message
      else Ret (Join ([name] @ labelAndValues) '',''))"

definition GetMetricValueOrZero :: "env \<Rightarrow> nat \<Rightarrow> Awaitility \<Rightarrow> string \<Rightarrow> string list \<Rightarrow> real T" where
  "GetMetricValueOrZero e now a family labelAndValues =
     (if length labelAndValues mod 2 \<noteq> 0 then Fatal pairs_message
      else (case metrics_GetMetricValue e now (RestConfig a) (MetricsURL a) family labelAndValues of
              (v, None) \<Rightarrow> Ret v
            | (v, Some err) \<Rightarrow> Ret 0))"

text \<open>The poll function of \<^verbatim>\<open>WaitUntiltMetricHasValue\<close>; it captures \<^verbatim>\<open>value\<close>.\<close>

definition metricHasValue :: "env \<Rightarrow> Awaitility \<Rightarrow> string \<Rightarrow> real \<Rightarrow> string list \<Rightarrow> real ConditionFunc" where
  "metricHasValue e a family expectedValue labels k captured =
     (case metrics_GetMetricValue e k (RestConfig a) (MetricsURL a) family labels of
        (v, err) \<Rightarrow>
          Ret (((v = expectedValue \<and> err = None) \<or> (expectedValue = 0 \<and> v = 0), None), v))"

definition WaitUntiltMetricHasValue :: "env \<Rightarrow> Awaitility \<Rightarrow> string \<Rightarrow> real \<Rightarrow> string list \<Rightarrow> unit T" where
  "WaitUntiltMetricHasValue e a family expectedValue labels =
     bindT (Poll (ticks e) (RetryInterval a) (Timeout a)
              (metricHasValue e a family expectedValue labels) 0)
       (\<lambda>(err, v). require_NoError err)"

text \<open>
  The sum \<^verbatim>\<open>x + y\<close> of two \<^verbatim>\<open>float64\<close> values: the other operand when one of them
  is zero, which is exact, and the rounded exact sum otherwise.
\<close>

definition float64_sum :: "env \<Rightarrow> real \<Rightarrow> real \<Rightarrow> real" where
  "float64_sum e x y = (if x = 0 then y else if y = 0 then x else float64_round e (x + y))"

definition WaitForMetricDelta :: "env \<Rightarrow> mapstore \<Rightarrow> Awaitility \<Rightarrow> string \<Rightarrow> real \<Rightarrow> string list \<Rightarrow> unit T" where
  "WaitForMetricDelta e h a family delta labels =
     bindT (baselineKey family labels)
       (\<lambda>key. let adjustedValue = float64_sum e (mapaccess h (baselineValues a) key) delta
              in WaitUntiltMetricHasValue e a family adjustedValue labels)"

definition WaitForMetricBaseline :: "env \<Rightarrow> mapstore \<Rightarrow> Awaitility \<Rightarrow> string \<Rightarrow> string list \<Rightarrow> unit T" where
  "WaitForMetricBaseline e h a family labels =
     bindT (baselineKey family labels)
       (\<lambda>key. WaitUntiltMetricHasValue e a family (mapaccess h (baselineValues a) key) labels)"

text \<open>The poll functions of the two one-sided waits.\<close>

definition metricHasValueOrMore :: "env \<Rightarrow> Awaitility \<Rightarrow> string \<Rightarrow> real \<Rightarrow> string list \<Rightarrow> real ConditionFunc" where
  "metricHasValueOrMore e a family expectedValue labels k captured =
     (case metrics_GetMetricValue e k (RestConfig a) (MetricsURL a) family labels of
        (v, err) \<Rightarrow> Ret ((v \<ge> expectedValue \<and> err = None, None), v))"

definition WaitUntilMetricHasValueOrMore :: "env \<Rightarrow> Awaitility \<Rightarrow> string \<Rightarrow> real \<Rightarrow> string list \<Rightarrow> error option T" where
  "WaitUntilMetricHasValueOrMore e a family expectedValue labels =
     bindT (Poll (ticks e) (RetryInterval a) (Timeout a)
              (metricHasValueOrMore e a family expectedValue labels) 0)
       (\<lambda>(err, v). Ret err)"

definition metricHasValueOrLess :: "env \<Rightarrow> Awaitility \<Rightarrow> string \<Rightarrow> real \<Rightarrow> string list \<Rightarrow> real ConditionFunc" where
  "metricHasValueOrLess e a family expectedValue labels k captured =
     (case metrics_GetMetricValue e k (RestConfig a) (MetricsURL a) family labels of
        (v, err) \<Rightarrow> Ret ((v \<le> expectedValue \<and> err = None, None), v))"

definition WaitUntilMetricHasValueOrLess :: "env \<Rightarrow> Awaitility \<Rightarrow> string \<Rightarrow> real \<Rightarrow> string list \<Rightarrow> error option T" where
  "WaitUntilMetricHasValueOrLess e a family expectedValue labels =
     bindT (Poll (ticks e) (RetryInterval a) (Timeout a)
              (metricHasValueOrLess e a family expectedValue labels) 0)
       (\<lambda>(err, v). Ret err)"

subsection \<open>Services and ToolchainClusters\<close>

text \<open>The poll function of \<^verbatim>\<open>WaitForService\<close>; it captures \<^verbatim>\<open>metricsSvc\<close>.\<close>

definition serviceExists :: "env \<Rightarrow> Awaitility \<Rightarrow> string \<Rightarrow> Service option ConditionFunc" where
  "serviceExists e a name k metricsSvc =
     (case Get_Service e k (Namespace a) name of
        Inl err \<Rightarrow>
          if IsNotFound err then Ret ((False, None), Some empty_Service)
          else Ret ((False, Some err), Some empty_Service)
      | Inr svc \<Rightarrow> Ret ((True, None), Some svc))"

definition WaitForService :: "env \<Rightarrow> Awaitility \<Rightarrow> string \<Rightarrow> (Service \<times> error option) T" where
  "WaitForService e a name =
     bindT (Poll (ticks e) (RetryInterval a) (Timeout a) (serviceExists e a name) None)
       (\<lambda>(err, metricsSvc).
          case metricsSvc of None \<Rightarrow> Panic | Some svc \<Rightarrow> Ret (svc, err))"

text \<open>
  \<^verbatim>\<open>ReadyToolchainCluster\<close>, the condition of a cluster that is ready: the type
  \<^verbatim>\<open>ToolchainClusterReady\<close> is the string \<open>Ready\<close> and the status
  \<^verbatim>\<open>ConditionTrue\<close> the string \<open>True\<close>.
\<close>

definition ReadyToolchainCluster :: ToolchainClusterCondition where
  "ReadyToolchainCluster = \<lparr>cType = ''Ready'', cStatus = ''True''\<rparr>"

fun containsClusterCondition :: "ToolchainClusterCondition list \<Rightarrow> ToolchainClusterCondition option \<Rightarrow> bool" where
  "containsClusterCondition conditions None = True"
| "containsClusterCondition [] (Some contains) = False"
| "containsClusterCondition (c # conditions) (Some contains) =
     (if cType c = cType contains then cStatus contains = cStatus c
      else containsClusterCondition conditions (Some contains))"

fun firstWithCondition :: "ToolchainCluster list \<Rightarrow> ToolchainClusterCondition option \<Rightarrow> ToolchainCluster \<times> bool \<times> error option" where
  "firstWithCondition [] condition = (empty_ToolchainCluster, False, None)"
| "firstWithCondition (cl # items) condition =
     (if containsClusterCondition (Conditions cl) condition then (cl, True, None)
      else firstWithCondition items condition)"

definition GetToolchainCluster :: "env \<Rightarrow> nat \<Rightarrow> Awaitility \<Rightarrow> string \<Rightarrow> string \<Rightarrow> ToolchainClusterCondition option \<Rightarrow> ToolchainCluster \<times> bool \<times> error option" where
  "GetToolchainCluster e now a clusterType namespace condition =
     (case List_ToolchainCluster e now (Namespace a)
             [(''namespace'', namespace), (''type'', clusterType)] of
        Inl err \<Rightarrow> (empty_ToolchainCluster, False, Some err)
      | Inr items \<Rightarrow> firstWithCondition items condition)"

definition clusterReady :: "env \<Rightarrow> Awaitility \<Rightarrow> string \<Rightarrow> string \<Rightarrow> ToolchainClusterCondition option \<Rightarrow> ToolchainCluster ConditionFunc" where
  "clusterReady e a clusterType namespace condition k c =
     (case GetToolchainCluster e k a clusterType namespace condition of
        (c', ready, err) \<Rightarrow> if ready then Ret ((True, None), c') else Ret ((False, err), c'))"

definition WaitForToolchainClusterWithCondition :: "env \<Rightarrow> Awaitility \<Rightarrow> string \<Rightarrow> string \<Rightarrow> ToolchainClusterCondition option \<Rightarrow> (ToolchainCluster \<times> error option) T" where
  "WaitForToolchainClusterWithCondition e a clusterType namespace condition =
     (let timeout = (if condition \<noteq> None then ToolchainClusterConditionTimeout else Timeout a)
      in bindT (Poll (ticks e) (RetryInterval a) timeout
                  (clusterReady e a clusterType namespace condition) empty_ToolchainCluster)
           (\<lambda>(err, c). Ret (c, err)))"

definition namedClusterReady :: "env \<Rightarrow> Awaitility \<Rightarrow> string \<Rightarrow> ToolchainClusterCondition option \<Rightarrow> ToolchainCluster ConditionFunc" where
  "namedClusterReady e a name condition k c =
     (case Get_ToolchainCluster e k (Namespace a) name of
        Inl err \<Rightarrow> Ret ((False, Some err), empty_ToolchainCluster)
      | Inr c' \<Rightarrow>
          if containsClusterCondition (Conditions c') condition then Ret ((True, None), c')
          else Ret ((False, None), c'))"

definition WaitForNamedToolchainClusterWithCondition :: "env \<Rightarrow> Awaitility \<Rightarrow> string \<Rightarrow> ToolchainClusterCondition option \<Rightarrow> (ToolchainCluster \<times> error option) T" where
  "WaitForNamedToolchainClusterWithCondition e a name condition =
     (let timeout = (if condition \<noteq> None then ToolchainClusterConditionTimeout else Timeout a)
      in bindT (Poll (ticks e) (RetryInterval a) timeout
                  (namedClusterReady e a name condition) empty_ToolchainCluster)
           (\<lambda>(err, c). Ret (c, err)))"

subsection \<open>Routes, pod metrics, namespaces\<close>

text \<open>
  The poll function of \<^verbatim>\<open>WaitForRouteToBeAvailable\<close>. The captured \<^verbatim>\<open>route\<close> is
  declared outside the closure: a failed \<^verbatim>\<open>Get\<close> leaves it as it was.
\<close>

definition routeAvailable :: "env \<Rightarrow> Awaitility \<Rightarrow> string \<Rightarrow> string \<Rightarrow> string \<Rightarrow> Route ConditionFunc" where
  "routeAvailable e a ns name endpoint k route =
     (case Get_Route e k ns name of
        Inl err \<Rightarrow> if IsNotFound err then Ret ((False, None), route) else Ret ((False, Some err), route)
      | Inr route' \<Rightarrow>
          if length (IngressHosts route') = 0 \<or> hd (IngressHosts route') = [] then Ret ((False, None), route')
          else
            (let url = (if TLS route' then ''https://'' else ''http://'') @ hd (IngressHosts route') @ endpoint;
                 authorization = (if TLS route' then Some (''Bearer '' @ BearerToken (RestConfig a)) else None)
             in case http_NewRequest e url of
                  Some err \<Rightarrow> Ret ((False, Some err), route')
                | None \<Rightarrow>
                    (case http_Do e k url authorization of
                       Inl err \<Rightarrow>
                         if IsURLTimeout err then Ret ((False, None), route')
                         else Ret ((False, Some err), route')
                     | Inr StatusCode \<Rightarrow>
                         if StatusCode \<noteq> 200 then Ret ((False, None), route')
                         else Ret ((True, None), route'))))"

definition WaitForRouteToBeAvailable :: "env \<Rightarrow> Awaitility \<Rightarrow> string \<Rightarrow> string \<Rightarrow> string \<Rightarrow> (Route \<times> error option) T" where
  "WaitForRouteToBeAvailable e a ns name endpoint =
     bindT (Poll (ticks e) (RetryInterval a) (Timeout a) (routeAvailable e a ns name endpoint) empty_Route)
       (\<lambda>(err, route). Ret (route, err))"

definition managerMetrics :: "env \<Rightarrow> string \<Rightarrow> string \<Rightarrow> ContainerMetrics ConditionFunc" where
  "managerMetrics e podname ns k containerMetrics =
     (case (case Get_PodMetrics e k ns podname of
              Inl err \<Rightarrow> if \<not> IsNotFound err then Inl err else Inr empty_PodMetrics
            | Inr podMetrics \<Rightarrow> Inr podMetrics) of
        Inl err \<Rightarrow> Ret ((False, Some err), containerMetrics)
      | Inr podMetrics \<Rightarrow>
          (case find (\<lambda>c. cmName c = ''manager'') (Containers podMetrics) of
             Some c \<Rightarrow> Ret ((True, None), c)
           | None \<Rightarrow> Ret ((False, None), containerMetrics)))"

definition GetMemoryUsage :: "env \<Rightarrow> Awaitility \<Rightarrow> string \<Rightarrow> string \<Rightarrow> (int \<times> error option) T" where
  "GetMemoryUsage e a podname ns =
     bindT (Poll (ticks e) (RetryInterval a) (Timeout a) (managerMetrics e podname ns) empty_ContainerMetrics)
       (\<lambda>(err, containerMetrics).
          case err of Some err' \<Rightarrow> Ret (- 1, Some err') | None \<Rightarrow> Ret (MemoryKilo containerMetrics, None))"

definition NamespaceActive :: string where
  "NamespaceActive = ''Active''"

definition namespaceActive :: "env \<Rightarrow> string \<Rightarrow> unit ConditionFunc" where
  "namespaceActive e name k u =
     (case Get_Namespace e k name of
        Inl err \<Rightarrow> if IsNotFound err then Ret ((False, None), u) else Ret ((False, Some err), u)
      | Inr ns \<Rightarrow> Ret ((Phase ns = NamespaceActive, None), u))"

text \<open>
  \<^verbatim>\<open>CreateNamespace\<close> ends by registering the deletion of the namespace with
  \<^verbatim>\<open>t.Cleanup\<close>; the registered function runs when the test ends and is not part of
  the call.
\<close>

definition CreateNamespace :: "env \<Rightarrow> Awaitility \<Rightarrow> string \<Rightarrow> unit T" where
  "CreateNamespace e a name =
     bindT (require_NoError (Create_Namespace e name))
       (\<lambda>u. bindT (Poll (ticks e) (RetryInterval a) (Timeout a) (namespaceActive e name) ())
               (\<lambda>(err, u'). require_NoError err))"

subsection \<open>Deployments\<close>

type_synonym DeploymentCriteria = "Deployment \<Rightarrow> bool"

definition DeploymentHasContainerWithImage :: "string \<Rightarrow> string \<Rightarrow> DeploymentCriteria" where
  "DeploymentHasContainerWithImage containerName image' deployment =
     list_ex (\<lambda>container. ctName container = containerName \<and> Image container = image')
       (SpecContainers deployment)"

text \<open>
  The poll function of \<^verbatim>\<open>WaitForDeploymentToGetReady\<close>; it captures
  \<^verbatim>\<open>deployment\<close>. The two \<^verbatim>\<open>require.NoError\<close> inside it stop the test.
\<close>

definition deploymentReady :: "env \<Rightarrow> Awaitility \<Rightarrow> string \<Rightarrow> int \<Rightarrow> DeploymentCriteria list \<Rightarrow> Deployment ConditionFunc" where
  "deploymentReady e a name replicas criteria k deployment =
     (case DeploymentConditionReady e k name (Namespace a) of
        Some err \<Rightarrow> Ret ((False, None), deployment)
      | None \<Rightarrow>
          (case Get_Deployment e k (Namespace a) name of
             Inl err \<Rightarrow> RequireFailed err
           | Inr deployment' \<Rightarrow>
               if AvailableReplicas deployment' \<noteq> replicas then Ret ((False, None), deployment')
               else
                 (case List_Pod e k (Namespace a) (MatchLabels deployment') of
                    Inl err \<Rightarrow> RequireFailed err
                  | Inr pods \<Rightarrow>
                      if int (length pods) \<noteq> replicas then Ret ((False, None), deployment')
                      else if list_ex (\<lambda>pod. IsBeingDeleted pod \<or> \<not> IsPodReady pod) pods
                        then Ret ((False, None), deployment')
                      else if list_ex (\<lambda>criteriaMatch. \<not> criteriaMatch deployment') criteria
                        then Ret ((False, None), deployment')
                      else Ret ((True, None), deployment'))))"

definition WaitForDeploymentToGetReady :: "env \<Rightarrow> Awaitility \<Rightarrow> string \<Rightarrow> int \<Rightarrow> DeploymentCriteria list \<Rightarrow> Deployment T" where
  "WaitForDeploymentToGetReady e a name replicas criteria =
     bindT (Poll (ticks e) (RetryInterval a) (6 * Timeout a)
              (deploymentReady e a name replicas criteria) empty_Deployment)
       (\<lambda>(err, deployment). bindT (require_NoError err) (\<lambda>u. Ret deployment))"

subsection \<open>Criteria on ToolchainClusters\<close>

record ToolchainClusterWaitCriterion =
  Match :: "ToolchainCluster \<Rightarrow> bool"

fun matchToolchainClusterWaitCriterion :: "ToolchainCluster \<Rightarrow> ToolchainClusterWaitCriterion list \<Rightarrow> bool" where
  "matchToolchainClusterWaitCriterion actual [] = True"
| "matchToolchainClusterWaitCriterion actual (c # criteria) =
     (if \<not> Match c actual then False else matchToolchainClusterWaitCriterion actual criteria)"

definition UntilToolchainClusterHasName :: "string \<Rightarrow> ToolchainClusterWaitCriterion" where
  "UntilToolchainClusterHasName expectedName = \<lparr>Match = (\<lambda>actual. Name actual = expectedName)\<rparr>"

definition UntilToolchainClusterHasCondition :: "ToolchainClusterCondition \<Rightarrow> ToolchainClusterWaitCriterion" where
  "UntilToolchainClusterHasCondition expected =
     \<lparr>Match = (\<lambda>actual. containsClusterCondition (Conditions actual) (Some expected))\<rparr>"

text \<open>The expected labels are a Go map, given here by its list of entries.\<close>

definition UntilToolchainClusterHasLabels :: "(string \<times> string) list \<Rightarrow> ToolchainClusterWaitCriterion" where
  "UntilToolchainClusterHasLabels expected =
     \<lparr>Match = (\<lambda>actual.
        \<not> list_ex (\<lambda>(expectedLabelKey, expectedLabelValue).
             case Labels actual expectedLabelKey of
               None \<Rightarrow> True
             | Some actualLabelValue \<Rightarrow> expectedLabelValue \<noteq> actualLabelValue) expected)\<rparr>"

text \<open>
  \<^verbatim>\<open>cluster.RoleLabel(cluster.Tenant)\<close> is a label key of package
  \<^verbatim>\<open>toolchain-common/pkg/cluster\<close>, a parameter here.
\<close>

definition UntilToolchainClusterHasNoTenantLabel :: "string \<Rightarrow> ToolchainClusterWaitCriterion" where
  "UntilToolchainClusterHasNoTenantLabel tenantRoleLabel =
     \<lparr>Match = (\<lambda>actual. case Labels actual tenantRoleLabel of Some v \<Rightarrow> False | None \<Rightarrow> True)\<rparr>"

text \<open>The poll function of \<^verbatim>\<open>WaitForToolchainCluster\<close>; it captures \<^verbatim>\<open>cl\<close>.\<close>

definition clusterMatches :: "env \<Rightarrow> Awaitility \<Rightarrow> ToolchainClusterWaitCriterion list \<Rightarrow> ToolchainCluster option ConditionFunc" where
  "clusterMatches e a criteria k cl =
     (case List_ToolchainCluster e k (Namespace a) [] of
        Inl err \<Rightarrow> Ret ((False, Some err), cl)
      | Inr items \<Rightarrow>
          (case find (\<lambda>obj. matchToolchainClusterWaitCriterion obj criteria) items of
             Some cpObj \<Rightarrow> Ret ((True, None), Some cpObj)
           | None \<Rightarrow> Ret ((False, None), cl)))"

definition WaitForToolchainCluster :: "env \<Rightarrow> Awaitility \<Rightarrow> ToolchainClusterWaitCriterion list \<Rightarrow> (ToolchainCluster option \<times> error option) T" where
  "WaitForToolchainCluster e a criteria =
     bindT (Poll (ticks e) (RetryInterval a) (Timeout a) (clusterMatches e a criteria) None)
       (\<lambda>(err, cl). Ret (cl, err))"

text \<open>The poll function of \<^verbatim>\<open>UpdateToolchainCluster\<close>; it captures \<^verbatim>\<open>tc\<close>.\<close>

definition clusterUpdated :: "env \<Rightarrow> Awaitility \<Rightarrow> string \<Rightarrow> (ToolchainCluster \<Rightarrow> ToolchainCluster) \<Rightarrow> ToolchainCluster option ConditionFunc" where
  "clusterUpdated e a toolchainClusterName modifyToolchainCluster k tc =
     (case Get_ToolchainCluster e k (Namespace a) toolchainClusterName of
        Inl err \<Rightarrow> Ret ((True, Some err), tc)
      | Inr fetched \<Rightarrow>
          (let newToolchainCluster = modifyToolchainCluster fetched
           in case Update_ToolchainCluster e k newToolchainCluster of
                Some err \<Rightarrow> Ret ((False, None), tc)
              | None \<Rightarrow> Ret ((True, None), Some newToolchainCluster)))"

definition UpdateToolchainCluster :: "env \<Rightarrow> Awaitility \<Rightarrow> string \<Rightarrow> (ToolchainCluster \<Rightarrow> ToolchainCluster) \<Rightarrow> (ToolchainCluster option \<times> error option) T" where
  "UpdateToolchainCluster e a toolchainClusterName modifyToolchainCluster =
     bindT (Poll (ticks e) (RetryInterval a) (Timeout a)
              (clusterUpdated e a toolchainClusterName modifyToolchainCluster) None)
       (\<lambda>(err, tc). Ret (tc, err))"

subsection \<open>Concrete inputs\<close>

text \<open>
  One environment and a few structs on which the theorems below are evaluated. The clock
  admits one run of the condition for each interval that fits in the timeout. The
  service \<open>metrics\<close> appears at the third attempt and the service \<open>guarded\<close> answers
  the first attempt with an error that is not a not-found error; the ToolchainCluster
  \<open>late\<close> appears at the second attempt, every other one exists from the start and is
  ready from the third attempt on; the deployment is ready from the sixth attempt on;
  the metric \<open>signups\<close> reads 5, 6 and then 7, the metric \<open>absent\<close> is reported with
  value 0 and an error, any other metric with value -1 and an error. The rounding
  leaves the numbers used below as they are (they are \<^verbatim>\<open>float64\<close> values) and rounds
  \<open>2^53 + 1\<close>, which is not one, to \<open>2^53\<close>.
\<close>

definition round0 :: "real \<Rightarrow> real" where
  "round0 x = (if x = 9007199254740993 then 9007199254740992 else x)"

definition clock0 :: clock where
  "clock0 interval timeout = unat timeout div unat interval"

definition service0 :: Service where
  "service0 = \<lparr>svcNamespace = ''host-ns'', svcName = ''metrics'', svcKind = ''Service''\<rparr>"

definition member0 :: ToolchainCluster where
  "member0 = \<lparr>Name = ''member-1'', Labels = [''type'' \<mapsto> ''member''],
     Conditions = [\<lparr>cType = ''Ready'', cStatus = ''False''\<rparr>]\<rparr>"

definition member1 :: ToolchainCluster where
  "member1 = \<lparr>Name = ''member-1'', Labels = [''type'' \<mapsto> ''member''],
     Conditions = [\<lparr>cType = ''Ready'', cStatus = ''True''\<rparr>]\<rparr>"

definition deployment0 :: Deployment where
  "deployment0 = \<lparr>AvailableReplicas = 1, MatchLabels = [(''app'', ''operator'')],
     SpecContainers = [\<lparr>ctName = ''manager'', Image = ''operator:1''\<rparr>]\<rparr>"

definition env0 :: env where
  "env0 = \<lparr>ticks = clock0,
     Get_Service = (\<lambda>k ns name.
       if name = ''metrics'' then (if k < 2 then Inl (NotFound ''no service'') else Inr service0)
       else if name = ''guarded'' then (if k = 0 then Inl (OtherError ''forbidden'') else Inr service0)
       else Inl (NotFound ''no service'')),
     Get_ToolchainCluster = (\<lambda>k ns name.
       if name = ''late'' \<and> k = 0 then Inl (NotFound ''no toolchaincluster'')
       else if k < 2 then Inr member0 else Inr member1),
     List_ToolchainCluster = (\<lambda>k ns labels. if k < 2 then Inr [member0] else Inr [member1]),
     Update_ToolchainCluster = (\<lambda>k c. None),
     Get_Route = (\<lambda>k ns name. Inl (NotFound ''no route'')),
     Get_PodMetrics = (\<lambda>k ns name. Inl (NotFound ''no pod metrics'')),
     Create_Namespace = (\<lambda>name. None),
     Get_Namespace = (\<lambda>k name. Inl (NotFound ''no namespace'')),
     Get_Deployment = (\<lambda>k ns name. Inr deployment0),
     List_Pod = (\<lambda>k ns labels. Inr [\<lparr>IsBeingDeleted = False, IsPodReady = True\<rparr>]),
     DeploymentConditionReady = (\<lambda>k name ns. if k < 5 then Some (OtherError ''not ready'') else None),
     metrics_GetMetricValue = (\<lambda>k rc url family labels.
       if family = ''signups'' then (if k = 0 then (5, None) else if k = 1 then (6, None) else (7, None))
       else if family = ''absent'' then (0, Some (OtherError ''metric not found''))
       else (- 1, Some (OtherError ''bad request''))),
     http_NewRequest = (\<lambda>url. None),
     http_Do = (\<lambda>k url authorization. Inr 200),
     float64_round = round0\<rparr>"

definition awaitility0 :: Awaitility where
  "awaitility0 = \<lparr>RestConfig = \<lparr>BearerToken = ''token''\<rparr>, ClusterName = ''host'',
     Namespace = ''host-ns'', Type = ''host'', RetryInterval = Second, Timeout = 3 * Second,
     MetricsURL = ''metrics.example'', baselineValues = Some 0\<rparr>"

definition awaitility1 :: Awaitility where
  "awaitility1 = awaitility0\<lparr>RetryInterval := 60 * Second, Timeout := Second\<rparr>"

definition awaitility30 :: Awaitility where
  "awaitility30 = awaitility0\<lparr>RetryInterval := 60 * Second, Timeout := 30 * Second\<rparr>"

definition store0 :: mapstore where
  "store0 = [0 \<mapsto> [''signups'' \<mapsto> 5]]"

definition store1 :: mapstore where
  "store1 = [0 \<mapsto> [''signups'' \<mapsto> 7, ''big'' \<mapsto> 9007199254740992]]"

section \<open>Properties\<close>

subsection \<open>Criteria\<close>

lemma match_all:
  "matchToolchainClusterWaitCriterion actual criteria = (\<forall>c \<in> set criteria. Match c actual)"
  by (induction criteria) auto

text \<open>
  Claim C8. The composite check of a list of criteria on a ToolchainCluster is the
  conjunction of the criteria: it holds iff every criterion of the list matches, and a
  permutation of the list gives the same result.
\<close>

theorem criteria_conjunction_order_independent:
  "matchToolchainClusterWaitCriterion actual criteria = (\<forall>c \<in> set criteria. Match c actual) \<and>
   (mset criteria' = mset criteria \<longrightarrow>
      matchToolchainClusterWaitCriterion actual criteria' =
      matchToolchainClusterWaitCriterion actual criteria)"
proof (intro conjI impI)
  show "matchToolchainClusterWaitCriterion actual criteria = (\<forall>c \<in> set criteria. Match c actual)"
    by (rule match_all)
next
  assume "mset criteria' = mset criteria"
  then have "set criteria' = set criteria"
    by (rule mset_eq_setD)
  then show "matchToolchainClusterWaitCriterion actual criteria' =
      matchToolchainClusterWaitCriterion actual criteria"
    by (simp add: match_all)
qed

theorem criteria_conjunction_witness:
  "mset [UntilToolchainClusterHasNoTenantLabel ''tenant'', UntilToolchainClusterHasName ''member-1'']
     = mset [UntilToolchainClusterHasName ''member-1'', UntilToolchainClusterHasNoTenantLabel ''tenant''] \<and>
   matchToolchainClusterWaitCriterion member1
     [UntilToolchainClusterHasNoTenantLabel ''tenant'', UntilToolchainClusterHasName ''member-1''] \<and>
   matchToolchainClusterWaitCriterion member1
     [UntilToolchainClusterHasName ''member-1'', UntilToolchainClusterHasNoTenantLabel ''tenant''] \<and>
   \<not> matchToolchainClusterWaitCriterion member1
     [UntilToolchainClusterHasName ''member-1'', UntilToolchainClusterHasLabels [(''type'', ''host'')]]"
  using criteria_conjunction_order_independent [of member1
     "[UntilToolchainClusterHasName ''member-1'', UntilToolchainClusterHasNoTenantLabel ''tenant'']"
     "[UntilToolchainClusterHasNoTenantLabel ''tenant'', UntilToolchainClusterHasName ''member-1'']"]
  by (simp add: member1_def UntilToolchainClusterHasName_def UntilToolchainClusterHasNoTenantLabel_def
        UntilToolchainClusterHasLabels_def)

subsection \<open>Metric waits\<close>



subsection \<open>Baseline keys\<close>

lemma Join_Cons: "Join (x # xs) sep = x @ (if xs = [] then [] else sep @ Join xs sep)"
  by (cases xs) simp_all

lemma takeWhile_Join:
  assumes "CHR '','' \<notin> set x"
  shows "takeWhile (\<lambda>c. c \<noteq> CHR '','') (Join (x # xs) '','') = x"
proof -
  have all: "\<forall>c \<in> set x. c \<noteq> CHR '',''"
    using assms by auto
  show ?thesis
  proof (cases "xs = []")
    case True
    then show ?thesis using all by (simp add: Join_Cons)
  next
    case False
    then show ?thesis using all by (simp add: Join_Cons takeWhile_append2 del: Join.simps)
  qed
qed

lemma dropWhile_Join:
  assumes "CHR '','' \<notin> set x"
  shows "dropWhile (\<lambda>c. c \<noteq> CHR '','') (Join (x # xs) '','') =
           (if xs = [] then [] else '','' @ Join xs '','')"
proof -
  have all: "\<forall>c \<in> set x. c \<noteq> CHR '',''"
    using assms by auto
  show ?thesis
    using all by (simp add: Join_Cons dropWhile_append2 del: Join.simps)
qed

lemma Join_inject:
  assumes "\<forall>x \<in> set (a # xs). CHR '','' \<notin> set x" and "\<forall>y \<in> set (b # ys). CHR '','' \<notin> set y"
    and "Join (a # xs) '','' = Join (b # ys) '',''"
  shows "a # xs = b # ys"
  using assms
proof (induction xs arbitrary: a b ys)
  case Nil
  from Nil.prems have ab: "a = b"
    using takeWhile_Join [of a "[]"] takeWhile_Join [of b ys] by simp
  from Nil.prems have "dropWhile (\<lambda>c. c \<noteq> CHR '','') (Join (a # []) '','') =
      dropWhile (\<lambda>c. c \<noteq> CHR '','') (Join (b # ys) '','')"
    by simp
  with Nil.prems have "ys = []"
    using dropWhile_Join [of a "[]"] dropWhile_Join [of b ys] by (auto split: if_splits)
  with ab show ?case by simp
next
  case (Cons x xs)
  from Cons.prems have ab: "a = b"
    using takeWhile_Join [of a "x # xs"] takeWhile_Join [of b ys] by simp
  from Cons.prems have "dropWhile (\<lambda>c. c \<noteq> CHR '','') (Join (a # x # xs) '','') =
      dropWhile (\<lambda>c. c \<noteq> CHR '','') (Join (b # ys) '','')"
    by simp
  with Cons.prems have rest: "ys \<noteq> [] \<and> Join (x # xs) '','' = Join ys '',''"
    using dropWhile_Join [of a "x # xs"] dropWhile_Join [of b ys] by (auto split: if_splits)
  then obtain y ys' where ys: "ys = y # ys'"
    by (cases ys) auto
  with rest Cons.prems have "x # xs = y # ys'"
    by (intro Cons.IH) auto
  with ab ys show ?case by simp
qed

text \<open>
  Claim C6, as stated, fails: the labels are not sorted, and two orders of the same
  label pairs give two keys.
\<close>

theorem baselineKey_permutation_counterexample:
  "mset [(''a'', ''1''), (''b'', ''2'')] = mset [(''b'', ''2''), (''a'', ''1'')] \<and>
   baselineKey ''f'' [''a'', ''1'', ''b'', ''2''] \<noteq> baselineKey ''f'' [''b'', ''2'', ''a'', ''1'']"
  by (simp add: baselineKey_def)

text \<open>
  Claim C6, amended. The key of a family and an even number of label arguments is the
  family name followed by the label arguments in the order given, joined by commas. It
  is a function of the family and the label list, and where no name, label or value
  holds a comma, two calls give the same key only for the same family and the same
  label list in the same order.
\<close>

theorem baselineKey_in_order:
  "baselineKey name labelAndValues =
     (if even (length labelAndValues) then Ret (Join (name # labelAndValues) '','') else Fatal pairs_message) \<and>
   ((\<forall>x \<in> set (name # labelAndValues). CHR '','' \<notin> set x) \<and>
    (\<forall>x \<in> set (name' # labelAndValues'). CHR '','' \<notin> set x) \<and>
    even (length labelAndValues) \<and> even (length labelAndValues') \<longrightarrow>
      (baselineKey name labelAndValues = baselineKey name' labelAndValues' \<longleftrightarrow>
         name = name' \<and> labelAndValues = labelAndValues'))"
proof (intro conjI impI)
  show "baselineKey name labelAndValues =
     (if even (length labelAndValues) then Ret (Join (name # labelAndValues) '','') else Fatal pairs_message)"
    by (simp add: baselineKey_def even_iff_mod_2_eq_zero del: Join.simps)
next
  assume h: "(\<forall>x \<in> set (name # labelAndValues). CHR '','' \<notin> set x) \<and>
    (\<forall>x \<in> set (name' # labelAndValues'). CHR '','' \<notin> set x) \<and>
    even (length labelAndValues) \<and> even (length labelAndValues')"
  show "baselineKey name labelAndValues = baselineKey name' labelAndValues' \<longleftrightarrow>
         name = name' \<and> labelAndValues = labelAndValues'"
  proof
    assume "baselineKey name labelAndValues = baselineKey name' labelAndValues'"
    with h have "Join (name # labelAndValues) '','' = Join (name' # labelAndValues') '',''"
      by (simp add: baselineKey_def even_iff_mod_2_eq_zero del: Join.simps)
    with h have "name # labelAndValues = name' # labelAndValues'"
      by (intro Join_inject) blast+
    then show "name = name' \<and> labelAndValues = labelAndValues'" by simp
  next
    assume "name = name' \<and> labelAndValues = labelAndValues'"
    then show "baselineKey name labelAndValues = baselineKey name' labelAndValues'" by simp
  qed
qed

theorem baselineKey_in_order_witness:
  "baselineKey ''f'' [''a'', ''1'', ''b'', ''2''] = Ret ''f,a,1,b,2'' \<and>
   baselineKey ''f'' [''b'', ''2'', ''a'', ''1''] = Ret ''f,b,2,a,1'' \<and>
   baselineKey ''f'' [''a'', ''1'', ''b'', ''2''] \<noteq> baselineKey ''f'' [''b'', ''2'', ''a'', ''1'']"
  using baselineKey_in_order [of "''f''" "[''a'', ''1'', ''b'', ''2'']" "''f''" "[''b'', ''2'', ''a'', ''1'']"]
  by (simp add: baselineKey_def)

subsection \<open>Label arguments\<close>

lemma odd_labels_Fatal:
  assumes "odd (length labels)"
  shows "WaitForMetricDelta e h a family delta labels = Fatal pairs_message \<and>
    WaitForMetricBaseline e h a family labels = Fatal pairs_message \<and>
    GetMetricValueOrZero e now a family labels = Fatal pairs_message"
  using assms
  by (simp add: WaitForMetricDelta_def WaitForMetricBaseline_def GetMetricValueOrZero_def
      baselineKey_def odd_iff_mod_2_eq_one)

lemma pollLoop_metricHasValue_Ret:
  "\<exists>err v. pollLoop n k (metricHasValue e a family expectedValue labels) s = Ret (err, v)"
proof (induction n arbitrary: k s)
  case 0
  show ?case by simp
next
  case (Suc n)
  obtain v err where f: "metrics_GetMetricValue e k (RestConfig a) (MetricsURL a) family labels = (v, err)"
    by (cases "metrics_GetMetricValue e k (RestConfig a) (MetricsURL a) family labels") auto
  show ?case
    using f Suc [of "Suc k" v] by (auto simp: metricHasValue_def)
qed

lemma WaitUntiltMetricHasValue_never_Fatal:
  "WaitUntiltMetricHasValue e a family expectedValue labels \<noteq> Fatal msg"
proof -
  obtain err v where
    "pollLoop (max 1 (ticks e (RetryInterval a) (Timeout a))) 0
       (metricHasValue e a family expectedValue labels) 0 = Ret (err, v)"
    using pollLoop_metricHasValue_Ret by blast
  then show ?thesis
    by (cases err) (simp_all add: WaitUntiltMetricHasValue_def Poll_def)
qed

text \<open>
  Claim C4 fails for \<^verbatim>\<open>WaitUntiltMetricHasValue\<close>. With the single label argument
  \<open>onlykey\<close>, \<^verbatim>\<open>WaitForMetricDelta\<close>, \<^verbatim>\<open>WaitForMetricBaseline\<close> and
  \<^verbatim>\<open>GetMetricValueOrZero\<close> stop the test at once with \<^verbatim>\<open>t.Fatal\<close>;
  \<^verbatim>\<open>WaitUntiltMetricHasValue\<close> does not look at the number of labels, polls until
  the deadline and fails with the timeout error.
\<close>

theorem WaitUntiltMetricHasValue_odd_labels_polls:
  "odd (length [''onlykey'']) \<and>
   WaitUntiltMetricHasValue env0 awaitility0 ''logins'' 1 [''onlykey''] = RequireFailed ErrWaitTimeout \<and>
   WaitForMetricDelta env0 store0 awaitility0 ''logins'' 1 [''onlykey''] = Fatal pairs_message \<and>
   WaitForMetricBaseline env0 store0 awaitility0 ''logins'' [''onlykey''] = Fatal pairs_message \<and>
   GetMetricValueOrZero env0 0 awaitility0 ''logins'' [''onlykey''] = Fatal pairs_message"
proof -
  have n: "max 1 (ticks env0 (RetryInterval awaitility0) (Timeout awaitility0)) = Suc (Suc (Suc 0))"
    by (simp add: env0_def awaitility0_def clock0_def Second_def)
  have run: "WaitUntiltMetricHasValue env0 awaitility0 ''logins'' 1 [''onlykey''] = RequireFailed ErrWaitTimeout"
    unfolding WaitUntiltMetricHasValue_def Poll_def n
    by (simp add: env0_def metricHasValue_def)
  have odd: "odd (length [''onlykey''])"
    by simp
  show ?thesis
    using run odd odd_labels_Fatal [OF odd] by simp
qed

subsection \<open>Baselines and deltas\<close>

lemma pollLoop_metricHasValue_outcome:
  "\<exists>v. pollLoop n k (metricHasValue e a family x labels) s =
     Ret (if \<exists>i<n. fst (metrics_GetMetricValue e (k + i) (RestConfig a) (MetricsURL a) family labels) = x \<and>
                  (snd (metrics_GetMetricValue e (k + i) (RestConfig a) (MetricsURL a) family labels) = None \<or> x = 0)
          then None else Some ErrWaitTimeout, v)"
proof (induction n arbitrary: k s)
  case 0
  show ?case by simp
next
  case (Suc n)
  obtain v err where f: "metrics_GetMetricValue e k (RestConfig a) (MetricsURL a) family labels = (v, err)"
    by (cases "metrics_GetMetricValue e k (RestConfig a) (MetricsURL a) family labels") auto
  show ?case
  proof (cases "v = x \<and> (err = None \<or> x = 0)")
    case True
    then have "pollLoop (Suc n) k (metricHasValue e a family x labels) s = Ret (None, v)"
      using f by (auto simp: metricHasValue_def)
    moreover have "\<exists>i<Suc n. fst (metrics_GetMetricValue e (k + i) (RestConfig a) (MetricsURL a) family labels) = x \<and>
        (snd (metrics_GetMetricValue e (k + i) (RestConfig a) (MetricsURL a) family labels) = None \<or> x = 0)"
      using True f by (intro exI [of _ 0]) simp
    ultimately show ?thesis by simp
  next
    case False
    then have step: "pollLoop (Suc n) k (metricHasValue e a family x labels) s =
        pollLoop n (Suc k) (metricHasValue e a family x labels) v"
      using f by (auto simp: metricHasValue_def)
    have shift: "(\<exists>i<Suc n. fst (metrics_GetMetricValue e (k + i) (RestConfig a) (MetricsURL a) family labels) = x \<and>
        (snd (metrics_GetMetricValue e (k + i) (RestConfig a) (MetricsURL a) family labels) = None \<or> x = 0)) =
      (\<exists>i<n. fst (metrics_GetMetricValue e (Suc k + i) (RestConfig a) (MetricsURL a) family labels) = x \<and>
        (snd (metrics_GetMetricValue e (Suc k + i) (RestConfig a) (MetricsURL a) family labels) = None \<or> x = 0))"
      using False f by (auto simp: Ex_less_Suc2)
    show ?thesis
      unfolding step shift by (rule Suc)
  qed
qed

lemma WaitUntiltMetricHasValue_outcome:
  "WaitUntiltMetricHasValue e a family x labels =
     (if \<exists>k<max 1 (ticks e (RetryInterval a) (Timeout a)).
           fst (metrics_GetMetricValue e k (RestConfig a) (MetricsURL a) family labels) = x \<and>
           (snd (metrics_GetMetricValue e k (RestConfig a) (MetricsURL a) family labels) = None \<or> x = 0)
      then Ret () else RequireFailed ErrWaitTimeout)"
proof -
  define N where "N = max 1 (ticks e (RetryInterval a) (Timeout a))"
  obtain v where "pollLoop N 0 (metricHasValue e a family x labels) 0 =
     Ret (if \<exists>i<N. fst (metrics_GetMetricValue e (0 + i) (RestConfig a) (MetricsURL a) family labels) = x \<and>
                  (snd (metrics_GetMetricValue e (0 + i) (RestConfig a) (MetricsURL a) family labels) = None \<or> x = 0)
          then None else Some ErrWaitTimeout, v)"
    using pollLoop_metricHasValue_outcome by blast
  then have run: "pollLoop N 0 (metricHasValue e a family x labels) 0 =
     Ret (if \<exists>i<N. fst (metrics_GetMetricValue e i (RestConfig a) (MetricsURL a) family labels) = x \<and>
                  (snd (metrics_GetMetricValue e i (RestConfig a) (MetricsURL a) family labels) = None \<or> x = 0)
          then None else Some ErrWaitTimeout, v)"
    by simp
  show ?thesis
    unfolding WaitUntiltMetricHasValue_def Poll_def N_def [symmetric] run
    by auto
qed

lemma float64_sum_zero: "float64_sum e x 0 = x" and float64_zero_sum: "float64_sum e 0 y = y"
  by (simp_all add: float64_sum_def)

lemma mapaccess_cases:
  "mapaccess h r key =
     (case r of None \<Rightarrow> 0 | Some p \<Rightarrow> (case h p of None \<Rightarrow> 0 | Some m \<Rightarrow> (case m key of None \<Rightarrow> 0 | Some b \<Rightarrow> b)))"
  by (simp add: mapaccess_def)

lemma float64_sum_rounds:
  "float64_sum env0 (mapaccess store1 (baselineValues awaitility0) ''big'') 1 = 9007199254740992"
  by (simp add: float64_sum_def mapaccess_def store1_def awaitility0_def env0_def round0_def)

text \<open>
  Claim C5, as stated, fails on an odd number of label arguments: the adjusted value of
  the family \<open>signups\<close>, the delta 7 and the single label argument \<open>onlykey\<close> is 7
  and the wait for 7 succeeds, but \<^verbatim>\<open>WaitForMetricDelta\<close> computes no target and waits
  for nothing: it stops the test with \<^verbatim>\<open>t.Fatal\<close>.
\<close>

theorem WaitForMetricDelta_odd_labels_counterexample:
  "odd (length [''onlykey'']) \<and>
   float64_sum env0 (mapaccess store0 (baselineValues awaitility0) (Join [''signups'', ''onlykey''] '','')) 7 = 7 \<and>
   WaitUntiltMetricHasValue env0 awaitility0 ''signups'' 7 [''onlykey''] = Ret () \<and>
   WaitForMetricDelta env0 store0 awaitility0 ''signups'' 7 [''onlykey''] = Fatal pairs_message"
proof -
  have n: "max 1 (ticks env0 (RetryInterval awaitility0) (Timeout awaitility0)) = Suc (Suc (Suc 0))"
    by (simp add: env0_def awaitility0_def clock0_def Second_def)
  have run: "WaitUntiltMetricHasValue env0 awaitility0 ''signups'' 7 [''onlykey''] = Ret ()"
    unfolding WaitUntiltMetricHasValue_def Poll_def n
    by (simp add: env0_def metricHasValue_def)
  have adj: "float64_sum env0 (mapaccess store0 (baselineValues awaitility0) (Join [''signups'', ''onlykey''] '','')) 7 = 7"
    by (simp add: float64_sum_def mapaccess_def store0_def awaitility0_def)
  have stop: "WaitForMetricDelta env0 store0 awaitility0 ''signups'' 7 [''onlykey''] = Fatal pairs_message"
    by (simp add: WaitForMetricDelta_def baselineKey_def)
  show ?thesis
    using run adj stop by simp
qed

text \<open>
  Claim C5, amended. Called with an odd number of label arguments,
  \<^verbatim>\<open>WaitForMetricDelta\<close> stops the test with \<^verbatim>\<open>t.Fatal\<close>. Called with an even number,
  its target is the \<^verbatim>\<open>float64\<close> sum of the stored baseline of the key of the family
  and labels and of the delta, where a key that was never captured (a nil map, or a map
  without the key) contributes the baseline 0; and it waits for the metric to equal
  that target: it returns when, within the deadline, an attempt fetches exactly the
  target (without an error, or with the target 0), and fails with the timeout error when
  no attempt does. The \<^verbatim>\<open>float64\<close> sum is the sum of the reals when an operand is 0 or
  the sum of the reals is a \<^verbatim>\<open>float64\<close> value, and that sum rounded otherwise.
\<close>

theorem WaitForMetricDelta_adjusted:
  assumes "key = Join (family # labels) '',''"
    and "N = max 1 (ticks e (RetryInterval a) (Timeout a))"
    and "G = (\<lambda>k. metrics_GetMetricValue e k (RestConfig a) (MetricsURL a) family labels)"
    and "baseline =
      (case baselineValues a of
         None \<Rightarrow> 0
       | Some p \<Rightarrow> (case h p of None \<Rightarrow> 0 | Some m \<Rightarrow> (case m key of None \<Rightarrow> 0 | Some b \<Rightarrow> b)))"
    and "adjusted = float64_sum e baseline delta"
  shows "WaitForMetricDelta e h a family delta labels =
     (if odd (length labels) then Fatal pairs_message
      else if \<exists>k<N. fst (G k) = adjusted \<and> (snd (G k) = None \<or> adjusted = 0) then Ret ()
      else RequireFailed ErrWaitTimeout) \<and>
    (baseline = 0 \<or> delta = 0 \<or> float64_round e (baseline + delta) = baseline + delta \<longrightarrow>
       adjusted = baseline + delta) \<and>
    (baseline \<noteq> 0 \<and> delta \<noteq> 0 \<longrightarrow> adjusted = float64_round e (baseline + delta))"
proof (intro conjI)
  show "WaitForMetricDelta e h a family delta labels =
     (if odd (length labels) then Fatal pairs_message
      else if \<exists>k<N. fst (G k) = adjusted \<and> (snd (G k) = None \<or> adjusted = 0) then Ret ()
      else RequireFailed ErrWaitTimeout)"
  proof (cases "odd (length labels)")
    case True
    then show ?thesis
      by (simp add: WaitForMetricDelta_def baselineKey_def odd_iff_mod_2_eq_one)
  next
    case False
    then have "WaitForMetricDelta e h a family delta labels = WaitUntiltMetricHasValue e a family adjusted labels"
      unfolding assms(1,4,5)
      by (simp add: WaitForMetricDelta_def baselineKey_def even_iff_mod_2_eq_zero mapaccess_cases del: Join.simps)
    with False show ?thesis
      using assms(2,3) by (simp add: WaitUntiltMetricHasValue_outcome)
  qed
next
  show "baseline = 0 \<or> delta = 0 \<or> float64_round e (baseline + delta) = baseline + delta \<longrightarrow>
       adjusted = baseline + delta"
    using assms(5) by (auto simp: float64_sum_def)
next
  show "baseline \<noteq> 0 \<and> delta \<noteq> 0 \<longrightarrow> adjusted = float64_round e (baseline + delta)"
    using assms(5) by (simp add: float64_sum_def)
qed

theorem WaitForMetricDelta_adjusted_witness:
  "WaitForMetricDelta env0 store0 awaitility0 ''signups'' 2 [] = Ret () \<and>
   WaitForMetricDelta env0 store0 awaitility0 ''signups'' 4 [] = RequireFailed ErrWaitTimeout \<and>
   WaitForMetricDelta env0 store0 awaitility0 ''absent'' 0 [] = Ret () \<and>
   WaitForMetricDelta env0 store0 awaitility0 ''logins'' 1 [] = RequireFailed ErrWaitTimeout"
proof -
  have N: "(3 :: nat) = max 1 (ticks env0 (RetryInterval awaitility0) (Timeout awaitility0))"
    by (simp add: env0_def awaitility0_def clock0_def Second_def)
  have b: "(5 :: real) =
      (case baselineValues awaitility0 of
         None \<Rightarrow> 0
       | Some p \<Rightarrow> (case store0 p of None \<Rightarrow> 0 | Some m \<Rightarrow> (case m ''signups'' of None \<Rightarrow> 0 | Some b \<Rightarrow> b)))"
    by (simp add: store0_def awaitility0_def)
  have b0: "(0 :: real) =
      (case baselineValues awaitility0 of
         None \<Rightarrow> 0
       | Some p \<Rightarrow> (case store0 p of None \<Rightarrow> 0 | Some m \<Rightarrow> (case m ''absent'' of None \<Rightarrow> 0 | Some b \<Rightarrow> b)))"
    by (simp add: store0_def awaitility0_def)
  have b1: "(0 :: real) =
      (case baselineValues awaitility0 of
         None \<Rightarrow> 0
       | Some p \<Rightarrow> (case store0 p of None \<Rightarrow> 0 | Some m \<Rightarrow> (case m ''logins'' of None \<Rightarrow> 0 | Some b \<Rightarrow> b)))"
    by (simp add: store0_def awaitility0_def)
  have adj7: "(7 :: real) = float64_sum env0 5 2"
    by (simp add: float64_sum_def env0_def round0_def)
  have adj9: "(9 :: real) = float64_sum env0 5 4"
    by (simp add: float64_sum_def env0_def round0_def)
  have adj0: "(0 :: real) = float64_sum env0 0 0"
    by (simp add: float64_sum_def)
  have adj1: "(1 :: real) = float64_sum env0 0 1"
    by (simp add: float64_sum_def)
  have hit: "\<exists>k<(3 :: nat). fst (metrics_GetMetricValue env0 k (RestConfig awaitility0) (MetricsURL awaitility0) ''signups'' []) = 7 \<and>
      (snd (metrics_GetMetricValue env0 k (RestConfig awaitility0) (MetricsURL awaitility0) ''signups'' []) = None \<or> (7 :: real) = 0)"
    by (intro exI [of _ 2]) (simp add: env0_def)
  have miss: "\<not> (\<exists>k<(3 :: nat). fst (metrics_GetMetricValue env0 k (RestConfig awaitility0) (MetricsURL awaitility0) ''signups'' []) = 9 \<and>
      (snd (metrics_GetMetricValue env0 k (RestConfig awaitility0) (MetricsURL awaitility0) ''signups'' []) = None \<or> (9 :: real) = 0))"
    by (simp add: env0_def)
  have hit0: "\<exists>k<(3 :: nat). fst (metrics_GetMetricValue env0 k (RestConfig awaitility0) (MetricsURL awaitility0) ''absent'' []) = 0 \<and>
      (snd (metrics_GetMetricValue env0 k (RestConfig awaitility0) (MetricsURL awaitility0) ''absent'' []) = None \<or> (0 :: real) = 0)"
    by (intro exI [of _ 0]) (simp add: env0_def)
  have miss1: "\<not> (\<exists>k<(3 :: nat). fst (metrics_GetMetricValue env0 k (RestConfig awaitility0) (MetricsURL awaitility0) ''logins'' []) = 1 \<and>
      (snd (metrics_GetMetricValue env0 k (RestConfig awaitility0) (MetricsURL awaitility0) ''logins'' []) = None \<or> (1 :: real) = 0))"
    by (simp add: env0_def)
  have r1: "WaitForMetricDelta env0 store0 awaitility0 ''signups'' 2 [] = Ret ()"
    using WaitForMetricDelta_adjusted [where e = env0 and h = store0 and a = awaitility0 and family = "''signups''"
        and labels = "[]" and delta = 2 and key = "''signups''" and N = 3 and baseline = 5 and adjusted = 7,
        OF _ N refl b adj7] hit
    by simp
  have r2: "WaitForMetricDelta env0 store0 awaitility0 ''signups'' 4 [] = RequireFailed ErrWaitTimeout"
    using WaitForMetricDelta_adjusted [where e = env0 and h = store0 and a = awaitility0 and family = "''signups''"
        and labels = "[]" and delta = 4 and key = "''signups''" and N = 3 and baseline = 5 and adjusted = 9,
        OF _ N refl b adj9] miss
    by simp
  have r3: "WaitForMetricDelta env0 store0 awaitility0 ''absent'' 0 [] = Ret ()"
    using WaitForMetricDelta_adjusted [where e = env0 and h = store0 and a = awaitility0 and family = "''absent''"
        and labels = "[]" and delta = 0 and key = "''absent''" and N = 3 and baseline = 0 and adjusted = 0,
        OF _ N refl b0 adj0] hit0
    by simp
  have r4: "WaitForMetricDelta env0 store0 awaitility0 ''logins'' 1 [] = RequireFailed ErrWaitTimeout"
    using WaitForMetricDelta_adjusted [where e = env0 and h = store0 and a = awaitility0 and family = "''logins''"
        and labels = "[]" and delta = 1 and key = "''logins''" and N = 3 and baseline = 0 and adjusted = 1,
        OF _ N refl b1 adj1] miss1
    by simp
  show ?thesis
    using r1 r2 r3 r4 by simp
qed

text \<open>
  Claim C7. \<^verbatim>\<open>WaitForMetricBaseline(family, labels)\<close> is
  \<^verbatim>\<open>WaitForMetricDelta(family, 0, labels)\<close>, for every family, label list, store of
  baselines and environment. What both do: with an odd number of label arguments they
  stop the test with \<^verbatim>\<open>t.Fatal\<close>; otherwise they wait for the metric to equal the
  baseline stored for the key of the family and labels (0 for a key never captured),
  return when an attempt within the deadline fetches it, and fail with the timeout
  error when none does.
\<close>

theorem WaitForMetricBaseline_is_delta_zero:
  assumes "key = Join (family # labels) '',''"
    and "N = max 1 (ticks e (RetryInterval a) (Timeout a))"
    and "G = (\<lambda>k. metrics_GetMetricValue e k (RestConfig a) (MetricsURL a) family labels)"
    and "baseline =
      (case baselineValues a of
         None \<Rightarrow> 0
       | Some p \<Rightarrow> (case h p of None \<Rightarrow> 0 | Some m \<Rightarrow> (case m key of None \<Rightarrow> 0 | Some b \<Rightarrow> b)))"
  shows "WaitForMetricBaseline e h a family labels = WaitForMetricDelta e h a family 0 labels \<and>
    WaitForMetricDelta e h a family 0 labels =
     (if odd (length labels) then Fatal pairs_message
      else if \<exists>k<N. fst (G k) = baseline \<and> (snd (G k) = None \<or> baseline = 0) then Ret ()
      else RequireFailed ErrWaitTimeout)"
proof
  show "WaitForMetricBaseline e h a family labels = WaitForMetricDelta e h a family 0 labels"
    by (simp add: WaitForMetricBaseline_def WaitForMetricDelta_def float64_sum_zero)
next
  show "WaitForMetricDelta e h a family 0 labels =
     (if odd (length labels) then Fatal pairs_message
      else if \<exists>k<N. fst (G k) = baseline \<and> (snd (G k) = None \<or> baseline = 0) then Ret ()
      else RequireFailed ErrWaitTimeout)"
  proof (cases "odd (length labels)")
    case True
    then show ?thesis
      by (simp add: WaitForMetricDelta_def baselineKey_def odd_iff_mod_2_eq_one)
  next
    case False
    then have "WaitForMetricDelta e h a family 0 labels = WaitUntiltMetricHasValue e a family baseline labels"
      unfolding assms(1,4)
      by (simp add: WaitForMetricDelta_def baselineKey_def even_iff_mod_2_eq_zero mapaccess_cases
          float64_sum_zero del: Join.simps)
    with False show ?thesis
      using assms(2,3) by (simp add: WaitUntiltMetricHasValue_outcome)
  qed
qed

theorem WaitForMetricBaseline_is_delta_zero_witness:
  "WaitForMetricBaseline env0 store1 awaitility0 ''signups'' [] = Ret () \<and>
   WaitForMetricDelta env0 store1 awaitility0 ''signups'' 0 [] = Ret () \<and>
   WaitForMetricBaseline env0 store1 awaitility0 ''logins'' [] = RequireFailed ErrWaitTimeout \<and>
   WaitForMetricDelta env0 store1 awaitility0 ''logins'' 0 [] = RequireFailed ErrWaitTimeout"
proof -
  have N: "(3 :: nat) = max 1 (ticks env0 (RetryInterval awaitility0) (Timeout awaitility0))"
    by (simp add: env0_def awaitility0_def clock0_def Second_def)
  have b: "(7 :: real) =
      (case baselineValues awaitility0 of
         None \<Rightarrow> 0
       | Some p \<Rightarrow> (case store1 p of None \<Rightarrow> 0 | Some m \<Rightarrow> (case m ''signups'' of None \<Rightarrow> 0 | Some b \<Rightarrow> b)))"
    by (simp add: store1_def awaitility0_def)
  have b0: "(0 :: real) =
      (case baselineValues awaitility0 of
         None \<Rightarrow> 0
       | Some p \<Rightarrow> (case store1 p of None \<Rightarrow> 0 | Some m \<Rightarrow> (case m ''logins'' of None \<Rightarrow> 0 | Some b \<Rightarrow> b)))"
    by (simp add: store1_def awaitility0_def)
  have hit: "\<exists>k<(3 :: nat). fst (metrics_GetMetricValue env0 k (RestConfig awaitility0) (MetricsURL awaitility0) ''signups'' []) = 7 \<and>
      (snd (metrics_GetMetricValue env0 k (RestConfig awaitility0) (MetricsURL awaitility0) ''signups'' []) = None \<or> (7 :: real) = 0)"
    by (intro exI [of _ 2]) (simp add: env0_def)
  have miss: "\<not> (\<exists>k<(3 :: nat). fst (metrics_GetMetricValue env0 k (RestConfig awaitility0) (MetricsURL awaitility0) ''logins'' []) = 0 \<and>
      (snd (metrics_GetMetricValue env0 k (RestConfig awaitility0) (MetricsURL awaitility0) ''logins'' []) = None \<or> (0 :: real) = 0))"
    by (simp add: env0_def)
  note i1 = WaitForMetricBaseline_is_delta_zero [where e = env0 and h = store1 and a = awaitility0
      and family = "''signups''" and labels = "[]" and key = "''signups''" and N = 3 and baseline = 7,
      OF _ N refl b]
  note i2 = WaitForMetricBaseline_is_delta_zero [where e = env0 and h = store1 and a = awaitility0
      and family = "''logins''" and labels = "[]" and key = "''logins''" and N = 3 and baseline = 0,
      OF _ N refl b0]
  show ?thesis
    using i1 i2 hit miss by simp
qed

subsection \<open>Specialized structs\<close>

lemma copy_id: "copy a = a"
  by (simp add: copy_def)

lemma apply_options_fields:
  "baselineValues (apply_options options r) = baselineValues r \<and>
   apply_options options r =
     r\<lparr>RetryInterval := RetryInterval (apply_options options r), Timeout := Timeout (apply_options options r)\<rparr>"
proof (induction options arbitrary: r)
  case Nil
  show ?case by simp
next
  case (Cons option options)
  show ?case
  proof (cases option)
    case (RetryIntervalOption d)
    with Cons [of "r\<lparr>RetryInterval := d\<rparr>"] show ?thesis
      by (auto intro!: Awaitility.equality)
  next
    case (TimeoutOption d)
    with Cons [of "r\<lparr>Timeout := d\<rparr>"] show ?thesis
      by (auto intro!: Awaitility.equality)
  qed
qed

lemma mapassign_mapaccess:
  "mapassign h r key v = Some h' \<Longrightarrow> mapaccess h' r key = v"
  by (auto simp: mapassign_def mapaccess_def split: option.splits)

text \<open>
  Claim C2, amended. \<^verbatim>\<open>WithRetryOptions\<close> returns a struct that differs from the
  receiver in \<^verbatim>\<open>RetryInterval\<close> and \<^verbatim>\<open>Timeout\<close> at most, and that holds the
  receiver's baseline map, the same one: a value written to the map through either
  struct is the value read through the other.
\<close>

theorem WithRetryOptions_shares_baselineValues:
  "baselineValues (WithRetryOptions a options) = baselineValues a \<and>
   WithRetryOptions a options =
     a\<lparr>RetryInterval := RetryInterval (WithRetryOptions a options),
       Timeout := Timeout (WithRetryOptions a options)\<rparr> \<and>
   (mapassign h (baselineValues (WithRetryOptions a options)) key v = Some h' \<longrightarrow>
      mapaccess h' (baselineValues a) key = v) \<and>
   (mapassign h (baselineValues a) key v = Some h' \<longrightarrow>
      mapaccess h' (baselineValues (WithRetryOptions a options)) key = v)"
proof -
  have same: "baselineValues (WithRetryOptions a options) = baselineValues a"
    using apply_options_fields [of options a] by (simp add: WithRetryOptions_def copy_id)
  have fields: "WithRetryOptions a options =
     a\<lparr>RetryInterval := RetryInterval (WithRetryOptions a options),
       Timeout := Timeout (WithRetryOptions a options)\<rparr>"
    using apply_options_fields [of options a] by (simp add: WithRetryOptions_def copy_id)
  show ?thesis
    using same fields mapassign_mapaccess [of h "baselineValues a" key v h'] by simp
qed

text \<open>
  Claim C2, as stated, fails: the copy is shallow. A baseline written through the
  specialized struct is read through the original, which read 0 before the write.
\<close>

theorem WithRetryOptions_independent_counterexample:
  "mapaccess [0 \<mapsto> Map.empty] (baselineValues awaitility0) ''k'' = 0 \<and>
   mapassign [0 \<mapsto> Map.empty] (baselineValues (WithRetryOptions awaitility0 [TimeoutOption Second])) ''k'' 3
     = Some [0 \<mapsto> [''k'' \<mapsto> 3]] \<and>
   mapaccess [0 \<mapsto> [''k'' \<mapsto> 3]] (baselineValues awaitility0) ''k'' = 3"
  by (simp add: mapaccess_def mapassign_def WithRetryOptions_def copy_def awaitility0_def)

theorem WithRetryOptions_shares_baselineValues_witness:
  "mapassign [0 \<mapsto> Map.empty] (baselineValues awaitility0) ''k'' 3 = Some [0 \<mapsto> [''k'' \<mapsto> 3]] \<and>
   mapaccess [0 \<mapsto> [''k'' \<mapsto> 3]]
     (baselineValues (WithRetryOptions awaitility0 [TimeoutOption Second, RetryIntervalOption Millisecond])) ''k'' = 3 \<and>
   Timeout (WithRetryOptions awaitility0 [TimeoutOption Second, RetryIntervalOption Millisecond]) = Second \<and>
   Timeout awaitility0 = 3 * Second"
proof -
  have w: "mapassign [0 \<mapsto> Map.empty] (baselineValues awaitility0) ''k'' 3 = Some [0 \<mapsto> [''k'' \<mapsto> 3]]"
    by (simp add: mapassign_def awaitility0_def)
  have t: "Timeout (WithRetryOptions awaitility0 [TimeoutOption Second, RetryIntervalOption Millisecond]) = Second \<and>
   Timeout awaitility0 = 3 * Second"
    by (simp add: WithRetryOptions_def copy_def awaitility0_def)
  show ?thesis
    using w t WithRetryOptions_shares_baselineValues [of awaitility0
        "[TimeoutOption Second, RetryIntervalOption Millisecond]" "[0 \<mapsto> Map.empty]" "''k''" 3
        "[0 \<mapsto> [''k'' \<mapsto> 3]]"]
    by simp
qed

subsection \<open>Deadlines\<close>

lemma clusterReady_Timeout:
  "clusterReady e (a\<lparr>Timeout := d\<rparr>) clusterType namespace condition =
   clusterReady e a clusterType namespace condition"
  by (intro ext) (simp add: clusterReady_def GetToolchainCluster_def)

lemma namedClusterReady_Timeout:
  "namedClusterReady e (a\<lparr>Timeout := d\<rparr>) name condition = namedClusterReady e a name condition"
  by (intro ext) (simp add: namedClusterReady_def)

lemma apply_options_Timeout_only:
  assumes "\<forall>opt \<in> set options. \<exists>d. opt = TimeoutOption d"
  shows "\<exists>d. apply_options options r = r\<lparr>Timeout := d\<rparr>"
  using assms
proof (induction options arbitrary: r)
  case Nil
  have "r = r\<lparr>Timeout := Timeout r\<rparr>" by simp
  then show ?case by (metis apply_options.simps(1))
next
  case (Cons opt options)
  then obtain d where opt: "opt = TimeoutOption d"
    by auto
  from Cons obtain d' where "apply_options options (r\<lparr>Timeout := d\<rparr>) = r\<lparr>Timeout := d\<rparr>\<lparr>Timeout := d'\<rparr>"
    by (metis list.set_intros(2))
  with opt show ?case
    by (auto intro: exI [of _ d'])
qed

text \<open>
  Claim C9. Called with a condition that is not nil, the two ToolchainCluster waits
  poll with the deadline \<^verbatim>\<open>ToolchainClusterConditionTimeout\<close>, 180 seconds, whatever the
  \<^verbatim>\<open>Timeout\<close> of the struct: a \<^verbatim>\<open>TimeoutOption\<close> applied with \<^verbatim>\<open>WithRetryOptions\<close>
  changes nothing of either wait, and neither does any list of such options.
\<close>

theorem cluster_condition_timeout:
  assumes "condition \<noteq> None" and "\<forall>opt \<in> set options. \<exists>d. opt = TimeoutOption d"
  shows "WaitForToolchainClusterWithCondition e a clusterType namespace condition =
      bindT (Poll (ticks e) (RetryInterval a) ToolchainClusterConditionTimeout
               (clusterReady e a clusterType namespace condition) empty_ToolchainCluster)
        (\<lambda>(err, c). Ret (c, err)) \<and>
    WaitForNamedToolchainClusterWithCondition e a name condition =
      bindT (Poll (ticks e) (RetryInterval a) ToolchainClusterConditionTimeout
               (namedClusterReady e a name condition) empty_ToolchainCluster)
        (\<lambda>(err, c). Ret (c, err)) \<and>
    WaitForToolchainClusterWithCondition e (WithRetryOptions a options) clusterType namespace condition =
      WaitForToolchainClusterWithCondition e a clusterType namespace condition \<and>
    WaitForNamedToolchainClusterWithCondition e (WithRetryOptions a options) name condition =
      WaitForNamedToolchainClusterWithCondition e a name condition \<and>
    ToolchainClusterConditionTimeout = 180000000000"
proof -
  from assms(2) obtain d where d: "WithRetryOptions a options = a\<lparr>Timeout := d\<rparr>"
    using apply_options_Timeout_only [of options a] by (auto simp: WithRetryOptions_def copy_id)
  show ?thesis
    using assms(1)
    by (simp add: d WaitForToolchainClusterWithCondition_def WaitForNamedToolchainClusterWithCondition_def
      clusterReady_Timeout namedClusterReady_Timeout
      ToolchainClusterConditionTimeout_def Second_def)
qed

theorem cluster_condition_timeout_witness:
  "Some ReadyToolchainCluster \<noteq> None \<and>
   Timeout awaitility1 = Second \<and>
   WaitForNamedToolchainClusterWithCondition env0 awaitility1 ''member-1'' (Some ReadyToolchainCluster)
     = Ret (member1, None) \<and>
   WaitForNamedToolchainClusterWithCondition env0 awaitility1 ''member-1'' None = Ret (member0, None) \<and>
   WaitForNamedToolchainClusterWithCondition env0 (WithRetryOptions awaitility1 [TimeoutOption (7 * Second)])
     ''member-1'' (Some ReadyToolchainCluster) = Ret (member1, None)"
proof -
  have c: "Some ReadyToolchainCluster \<noteq> None"
    by simp
  have opts: "\<forall>opt \<in> set [TimeoutOption (7 * Second)]. \<exists>d. opt = TimeoutOption d"
    by simp
  note inst = cluster_condition_timeout [where e = env0 and a = awaitility1 and clusterType = "''host''"
      and namespace = "''host-ns''" and name = "''member-1''", OF c opts]
  have n: "max 1 (ticks env0 (RetryInterval awaitility1) ToolchainClusterConditionTimeout) = Suc (Suc (Suc 0))"
    by (simp add: env0_def awaitility1_def awaitility0_def clock0_def Second_def ToolchainClusterConditionTimeout_def)
  have run: "WaitForNamedToolchainClusterWithCondition env0 awaitility1 ''member-1'' (Some ReadyToolchainCluster)
     = Ret (member1, None)"
    unfolding inst [THEN conjunct2, THEN conjunct1] Poll_def n
    by (simp add: env0_def namedClusterReady_def awaitility1_def awaitility0_def ReadyToolchainCluster_def
        member0_def member1_def)
  have n0: "max 1 (ticks env0 (RetryInterval awaitility1) (Timeout awaitility1)) = Suc 0"
    by (simp add: env0_def awaitility1_def awaitility0_def clock0_def Second_def)
  have run0: "WaitForNamedToolchainClusterWithCondition env0 awaitility1 ''member-1'' None = Ret (member0, None)"
    unfolding WaitForNamedToolchainClusterWithCondition_def Poll_def
    using n0 by (simp add: env0_def namedClusterReady_def awaitility1_def awaitility0_def)
  have t: "Timeout awaitility1 = Second"
    by (simp add: awaitility1_def)
  show ?thesis
    using c t run run0 inst by simp
qed

lemma inv5: "(14757395258967641293 :: 64 word) * 5 = 1"
  by simp

lemma six_times_neq:
  fixes t :: Duration
  assumes "t \<noteq> 0"
  shows "6 * t \<noteq> t"
proof
  assume "6 * t = t"
  then have "6 * t - t = 0"
    by simp
  moreover have "6 * t - t = 5 * t"
    by (simp add: algebra_simps)
  ultimately have "5 * t = 0"
    by simp
  then have "14757395258967641293 * (5 * t) = 0"
    by simp
  then have "(14757395258967641293 * 5) * t = 0"
    by (simp only: mult.assoc)
  then have "t = 0"
    by (simp only: inv5 mult_1)
  with assms show False by simp
qed

lemma six_times_exact:
  fixes t :: Duration
  assumes "0 \<le> sint t" and "sint t < 1537228672809129301"
  shows "sint (6 * t) = 6 * sint t"
proof -
  have "sint (6 * t) = signed_take_bit 63 (6 * sint t)"
    by (simp add: sint_word_ariths)
  also have "\<dots> = 6 * sint t"
    using assms by (intro signed_take_bit_int_eq_self) auto
  finally show ?thesis .
qed

text \<open>
  Claim C10, as stated, fails: with a condition that is not nil the two ToolchainCluster
  waits poll with 180 seconds, and for a \<^verbatim>\<open>Timeout\<close> of 30 seconds that is six times
  the \<^verbatim>\<open>Timeout\<close>, the deadline of \<^verbatim>\<open>WaitForDeploymentToGetReady\<close>. Polled with the
  \<^verbatim>\<open>Timeout\<close> the condition of the wait below times out after one attempt; polled with
  six times the \<^verbatim>\<open>Timeout\<close> it succeeds at the third, and that is what the wait returns.
\<close>

theorem other_wait_six_times_counterexample:
  "Timeout awaitility30 = 30 * Second \<and>
   6 * Timeout awaitility30 = ToolchainClusterConditionTimeout \<and>
   Poll (ticks env0) (RetryInterval awaitility30) (Timeout awaitility30)
     (namedClusterReady env0 awaitility30 ''member-1'' (Some ReadyToolchainCluster)) empty_ToolchainCluster
     = Ret (Some ErrWaitTimeout, member0) \<and>
   Poll (ticks env0) (RetryInterval awaitility30) (6 * Timeout awaitility30)
     (namedClusterReady env0 awaitility30 ''member-1'' (Some ReadyToolchainCluster)) empty_ToolchainCluster
     = Ret (None, member1) \<and>
   WaitForNamedToolchainClusterWithCondition env0 awaitility30 ''member-1'' (Some ReadyToolchainCluster)
     = Ret (member1, None)"
proof -
  have t1: "Timeout awaitility30 = 30 * Second"
    by (simp add: awaitility30_def)
  have t2: "6 * Timeout awaitility30 = ToolchainClusterConditionTimeout"
    by (simp add: awaitility30_def ToolchainClusterConditionTimeout_def Second_def)
  have n1: "max 1 (ticks env0 (RetryInterval awaitility30) (Timeout awaitility30)) = Suc 0"
    by (simp add: env0_def awaitility30_def awaitility0_def clock0_def Second_def)
  have n3: "max 1 (ticks env0 (RetryInterval awaitility30) (6 * Timeout awaitility30)) = Suc (Suc (Suc 0))"
    by (simp add: env0_def awaitility30_def awaitility0_def clock0_def Second_def)
  have n3': "max 1 (ticks env0 (RetryInterval awaitility30) ToolchainClusterConditionTimeout) = Suc (Suc (Suc 0))"
    by (simp add: env0_def awaitility30_def awaitility0_def clock0_def Second_def ToolchainClusterConditionTimeout_def)
  have p1: "Poll (ticks env0) (RetryInterval awaitility30) (Timeout awaitility30)
     (namedClusterReady env0 awaitility30 ''member-1'' (Some ReadyToolchainCluster)) empty_ToolchainCluster
     = Ret (Some ErrWaitTimeout, member0)"
    unfolding Poll_def n1
    by (simp add: env0_def namedClusterReady_def ReadyToolchainCluster_def member0_def)
  have p3: "Poll (ticks env0) (RetryInterval awaitility30) (6 * Timeout awaitility30)
     (namedClusterReady env0 awaitility30 ''member-1'' (Some ReadyToolchainCluster)) empty_ToolchainCluster
     = Ret (None, member1)"
    unfolding Poll_def n3
    by (simp add: env0_def namedClusterReady_def ReadyToolchainCluster_def member0_def member1_def)
  have w: "WaitForNamedToolchainClusterWithCondition env0 awaitility30 ''member-1'' (Some ReadyToolchainCluster)
     = Ret (member1, None)"
    unfolding WaitForNamedToolchainClusterWithCondition_def Poll_def
    using n3' by (simp add: env0_def namedClusterReady_def ReadyToolchainCluster_def member0_def member1_def)
  show ?thesis
    by (intro conjI t1 t2 p1 p3 w)
qed

text \<open>
  Claim C10, amended. \<^verbatim>\<open>WaitForDeploymentToGetReady\<close> polls with the deadline
  \<^verbatim>\<open>6*a.Timeout\<close> (a product of 64-bit integers, six times the \<^verbatim>\<open>Timeout\<close> as
  long as that fits in 64 bits), which is not the \<^verbatim>\<open>Timeout\<close> unless that is 0. Every
  other wait of the struct polls with the \<^verbatim>\<open>Timeout\<close> itself, but for the two
  ToolchainCluster waits called with a condition that is not nil: these poll with the
  fixed 180 seconds, which is six times the \<^verbatim>\<open>Timeout\<close> when that is 30 seconds.
\<close>

theorem deployment_timeout_six_times:
  "WaitForDeploymentToGetReady e a name replicas criteria =
     bindT (Poll (ticks e) (RetryInterval a) (6 * Timeout a)
              (deploymentReady e a name replicas criteria) empty_Deployment)
       (\<lambda>(err, deployment). bindT (require_NoError err) (\<lambda>u. Ret deployment)) \<and>
   (Timeout a \<noteq> 0 \<longrightarrow> 6 * Timeout a \<noteq> Timeout a) \<and>
   WaitForService e a name =
     bindT (Poll (ticks e) (RetryInterval a) (Timeout a) (serviceExists e a name) None)
       (\<lambda>(err, metricsSvc). case metricsSvc of None \<Rightarrow> Panic | Some svc \<Rightarrow> Ret (svc, err)) \<and>
   WaitForToolchainClusterWithCondition e a clusterType namespace None =
     bindT (Poll (ticks e) (RetryInterval a) (Timeout a)
              (clusterReady e a clusterType namespace None) empty_ToolchainCluster)
       (\<lambda>(err, c). Ret (c, err)) \<and>
   WaitForNamedToolchainClusterWithCondition e a name None =
     bindT (Poll (ticks e) (RetryInterval a) (Timeout a)
              (namedClusterReady e a name None) empty_ToolchainCluster)
       (\<lambda>(err, c). Ret (c, err)) \<and>
   WaitForRouteToBeAvailable e a namespace name endpoint =
     bindT (Poll (ticks e) (RetryInterval a) (Timeout a) (routeAvailable e a namespace name endpoint) empty_Route)
       (\<lambda>(err, route). Ret (route, err)) \<and>
   WaitUntiltMetricHasValue e a family expectedValue labels =
     bindT (Poll (ticks e) (RetryInterval a) (Timeout a)
              (metricHasValue e a family expectedValue labels) 0)
       (\<lambda>(err, v). require_NoError err) \<and>
   WaitUntilMetricHasValueOrMore e a family expectedValue labels =
     bindT (Poll (ticks e) (RetryInterval a) (Timeout a)
              (metricHasValueOrMore e a family expectedValue labels) 0)
       (\<lambda>(err, v). Ret err) \<and>
   WaitUntilMetricHasValueOrLess e a family expectedValue labels =
     bindT (Poll (ticks e) (RetryInterval a) (Timeout a)
              (metricHasValueOrLess e a family expectedValue labels) 0)
       (\<lambda>(err, v). Ret err) \<and>
   GetMemoryUsage e a name namespace =
     bindT (Poll (ticks e) (RetryInterval a) (Timeout a) (managerMetrics e name namespace) empty_ContainerMetrics)
       (\<lambda>(err, containerMetrics).
          case err of Some err' \<Rightarrow> Ret (- 1, Some err') | None \<Rightarrow> Ret (MemoryKilo containerMetrics, None)) \<and>
   CreateNamespace e a name =
     bindT (require_NoError (Create_Namespace e name))
       (\<lambda>u. bindT (Poll (ticks e) (RetryInterval a) (Timeout a) (namespaceActive e name) ())
               (\<lambda>(err, u'). require_NoError err)) \<and>
   WaitForToolchainCluster e a clusterCriteria =
     bindT (Poll (ticks e) (RetryInterval a) (Timeout a) (clusterMatches e a clusterCriteria) None)
       (\<lambda>(err, cl). Ret (cl, err)) \<and>
   UpdateToolchainCluster e a name modifyToolchainCluster =
     bindT (Poll (ticks e) (RetryInterval a) (Timeout a)
              (clusterUpdated e a name modifyToolchainCluster) None)
       (\<lambda>(err, tc). Ret (tc, err)) \<and>
   (0 \<le> sint (Timeout a) \<and> sint (Timeout a) < 1537228672809129301 \<longrightarrow>
      sint (6 * Timeout a) = 6 * sint (Timeout a)) \<and>
   (condition \<noteq> None \<longrightarrow>
      WaitForToolchainClusterWithCondition e a clusterType namespace condition =
        bindT (Poll (ticks e) (RetryInterval a) ToolchainClusterConditionTimeout
                 (clusterReady e a clusterType namespace condition) empty_ToolchainCluster)
          (\<lambda>(err, c). Ret (c, err)) \<and>
      WaitForNamedToolchainClusterWithCondition e a name condition =
        bindT (Poll (ticks e) (RetryInterval a) ToolchainClusterConditionTimeout
                 (namedClusterReady e a name condition) empty_ToolchainCluster)
          (\<lambda>(err, c). Ret (c, err))) \<and>
   ToolchainClusterConditionTimeout = 180 * Second \<and>
   (Timeout a = 30 * Second \<longrightarrow> 6 * Timeout a = ToolchainClusterConditionTimeout)"
proof -
  have six: "Timeout a \<noteq> 0 \<longrightarrow> 6 * Timeout a \<noteq> Timeout a"
    using six_times_neq [of "Timeout a"] by simp
  have exact: "0 \<le> sint (Timeout a) \<and> sint (Timeout a) < 1537228672809129301 \<longrightarrow>
      sint (6 * Timeout a) = 6 * sint (Timeout a)"
    using six_times_exact [of "Timeout a"] by simp
  show ?thesis
    unfolding WaitForDeploymentToGetReady_def WaitForService_def
      WaitForToolchainClusterWithCondition_def WaitForNamedToolchainClusterWithCondition_def
      WaitForRouteToBeAvailable_def WaitUntiltMetricHasValue_def WaitUntilMetricHasValueOrMore_def
      WaitUntilMetricHasValueOrLess_def GetMemoryUsage_def CreateNamespace_def
      WaitForToolchainCluster_def UpdateToolchainCluster_def
    using six exact by (simp add: ToolchainClusterConditionTimeout_def Second_def)
qed

theorem deployment_timeout_six_times_witness:
  "Timeout (awaitility0\<lparr>Timeout := Second\<rparr>) = Second \<and>
   WaitForDeploymentToGetReady env0 (awaitility0\<lparr>Timeout := Second\<rparr>) ''operator'' 1 [] = Ret deployment0 \<and>
   WaitForService env0 (awaitility0\<lparr>Timeout := Second\<rparr>) ''metrics''
     = Ret (empty_Service, Some ErrWaitTimeout)"
proof -
  note inst = deployment_timeout_six_times [of env0 "awaitility0\<lparr>Timeout := Second\<rparr>" "''operator''" 1 "[]"]
  note inst' = deployment_timeout_six_times [of env0 "awaitility0\<lparr>Timeout := Second\<rparr>" "''metrics''" 1 "[]"]
  have n: "max 1 (ticks env0 (RetryInterval (awaitility0\<lparr>Timeout := Second\<rparr>))
              (6 * Timeout (awaitility0\<lparr>Timeout := Second\<rparr>)))
      = Suc (Suc (Suc (Suc (Suc (Suc 0)))))"
    by (simp add: env0_def awaitility0_def clock0_def Second_def)
  have run: "WaitForDeploymentToGetReady env0 (awaitility0\<lparr>Timeout := Second\<rparr>) ''operator'' 1 [] = Ret deployment0"
    unfolding inst [THEN conjunct1] Poll_def n
    by (simp add: env0_def deploymentReady_def deployment0_def)
  have n1: "max 1 (ticks env0 (RetryInterval (awaitility0\<lparr>Timeout := Second\<rparr>))
              (Timeout (awaitility0\<lparr>Timeout := Second\<rparr>))) = Suc 0"
    by (simp add: env0_def awaitility0_def clock0_def Second_def)
  have run1: "WaitForService env0 (awaitility0\<lparr>Timeout := Second\<rparr>) ''metrics''
     = Ret (empty_Service, Some ErrWaitTimeout)"
    unfolding inst' [THEN conjunct2, THEN conjunct2, THEN conjunct1] Poll_def n1
    by (simp add: env0_def serviceExists_def)
  show ?thesis
    using run run1 by simp
qed

subsection \<open>Errors of the poll function\<close>

lemma pollLoop_serviceExists_notfound:
  assumes "\<forall>i<m. \<exists>msg. Get_Service e (k + i) (Namespace a) name = Inl (NotFound msg)" and "m \<le> n"
  shows "pollLoop n k (serviceExists e a name) s =
         pollLoop (n - m) (k + m) (serviceExists e a name) (if m = 0 then s else Some empty_Service)"
  using assms
proof (induction m arbitrary: n k s)
  case 0
  then show ?case by simp
next
  case (Suc m)
  from Suc.prems obtain n' where n: "n = Suc n'" and mn: "m \<le> n'"
    by (cases n) auto
  from Suc.prems obtain msg where first: "Get_Service e k (Namespace a) name = Inl (NotFound msg)"
    by fastforce
  have rest: "\<forall>i<m. \<exists>msg. Get_Service e (Suc k + i) (Namespace a) name = Inl (NotFound msg)"
  proof (intro allI impI)
    fix i assume "i < m"
    then have "Suc i < Suc m" by simp
    with Suc.prems(1) have "\<exists>msg. Get_Service e (k + Suc i) (Namespace a) name = Inl (NotFound msg)"
      by blast
    then show "\<exists>msg. Get_Service e (Suc k + i) (Namespace a) name = Inl (NotFound msg)"
      by simp
  qed
  have step: "pollLoop n k (serviceExists e a name) s =
      pollLoop n' (Suc k) (serviceExists e a name) (Some empty_Service)"
    using first n by (simp add: serviceExists_def)
  have "pollLoop n' (Suc k) (serviceExists e a name) (Some empty_Service) =
      pollLoop (n' - m) (Suc k + m) (serviceExists e a name)
        (if m = 0 then Some empty_Service else Some empty_Service)"
    using Suc.IH [OF rest mn] .
  with step n show ?case by simp
qed

lemma pollLoop_continue:
  assumes "\<forall>i<m. \<forall>s. \<exists>s'. condition (k + i) s = Ret ((False, None), s')" and "m \<le> n"
  shows "\<exists>s'. pollLoop n k condition s = pollLoop (n - m) (k + m) condition s'"
  using assms
proof (induction m arbitrary: n k s)
  case 0
  then show ?case by auto
next
  case (Suc m)
  from Suc.prems obtain n' where n: "n = Suc n'" and mn: "m \<le> n'"
    by (cases n) auto
  from Suc.prems(1) have "\<forall>s. \<exists>s'. condition (k + 0) s = Ret ((False, None), s')"
    by blast
  then obtain s1 where first: "condition k s = Ret ((False, None), s1)"
    by auto
  have rest: "\<forall>i<m. \<forall>s. \<exists>s'. condition (Suc k + i) s = Ret ((False, None), s')"
  proof (intro allI impI)
    fix i s assume "i < m"
    then have "Suc i < Suc m" by simp
    with Suc.prems(1) have "\<forall>s. \<exists>s'. condition (k + Suc i) s = Ret ((False, None), s')"
      by blast
    then show "\<exists>s'. condition (Suc k + i) s = Ret ((False, None), s')"
      by simp
  qed
  have step: "pollLoop n k condition s = pollLoop n' (Suc k) condition s1"
    using first n by simp
  from Suc.IH [OF rest mn] obtain s' where
    "pollLoop n' (Suc k) condition s1 = pollLoop (n' - m) (Suc k + m) condition s'"
    by blast
  with step n show ?case by auto
qed

text \<open>
  Claim C1, amended. A poll function that returns (false, nil) keeps the wait polling:
  when the first \<open>m\<close> attempts return (false, nil), the wait ends with the timeout
  error if \<open>m\<close> attempts are all the deadline admits, succeeds if attempt \<open>m\<close> is
  within the deadline and returns (true, nil), and ends with the error of attempt
  \<open>m\<close> if that returns one. \<^verbatim>\<open>WaitForService\<close> turns the not-found error of its fetch
  into (false, nil): while the service does not exist the wait goes on, up to the
  deadline; it returns the service once found, and ends at once with any other error
  of the fetch.
\<close>

theorem poll_stops_on_error_only:
  assumes "N = max 1 (clk interval timeout)"
    and "\<forall>i<m. \<forall>s. \<exists>s'. condition i s = Ret ((False, None), s')"
    and "N' = max 1 (ticks e (RetryInterval a) (Timeout a))"
    and "\<forall>i<m'. \<exists>msg. Get_Service e i (Namespace a) name = Inl (NotFound msg)"
  shows "(m = N \<longrightarrow> (\<exists>s'. Poll clk interval timeout condition s = Ret (Some ErrWaitTimeout, s'))) \<and>
    (m < N \<and> (\<forall>s. \<exists>s'. condition m s = Ret ((True, None), s')) \<longrightarrow>
       (\<exists>s'. Poll clk interval timeout condition s = Ret (None, s'))) \<and>
    (m < N \<and> (\<forall>s. \<exists>s'. condition m s = Ret ((done, Some err), s')) \<longrightarrow>
       (\<exists>s'. Poll clk interval timeout condition s = Ret (Some err, s'))) \<and>
    (m' = N' \<longrightarrow> WaitForService e a name = Ret (empty_Service, Some ErrWaitTimeout)) \<and>
    (m' < N' \<and> Get_Service e m' (Namespace a) name = Inr svc \<longrightarrow>
       WaitForService e a name = Ret (svc, None)) \<and>
    (m' < N' \<and> Get_Service e m' (Namespace a) name = Inl err' \<and> \<not> IsNotFound err' \<longrightarrow>
       WaitForService e a name = Ret (empty_Service, Some err'))"
proof (intro conjI impI)
  assume "m = N"
  with assms(2) have "\<exists>s'. pollLoop N 0 condition s = pollLoop (N - N) (0 + N) condition s'"
    by (intro pollLoop_continue) auto
  then show "\<exists>s'. Poll clk interval timeout condition s = Ret (Some ErrWaitTimeout, s')"
    using assms(1) by (auto simp: Poll_def)
next
  assume h: "m < N \<and> (\<forall>s. \<exists>s'. condition m s = Ret ((True, None), s'))"
  with assms(2) have "\<exists>s'. pollLoop N 0 condition s = pollLoop (N - m) (0 + m) condition s'"
    by (intro pollLoop_continue) auto
  then obtain s1 where s1: "pollLoop N 0 condition s = pollLoop (N - m) m condition s1"
    by auto
  from h obtain n' where n': "N - m = Suc n'"
    by (cases "N - m") auto
  from h obtain s2 where "condition m s1 = Ret ((True, None), s2)"
    by blast
  with s1 n' have "pollLoop N 0 condition s = Ret (None, s2)"
    by simp
  then show "\<exists>s'. Poll clk interval timeout condition s = Ret (None, s')"
    using assms(1) by (auto simp: Poll_def)
next
  assume h: "m < N \<and> (\<forall>s. \<exists>s'. condition m s = Ret ((done, Some err), s'))"
  with assms(2) have "\<exists>s'. pollLoop N 0 condition s = pollLoop (N - m) (0 + m) condition s'"
    by (intro pollLoop_continue) auto
  then obtain s1 where s1: "pollLoop N 0 condition s = pollLoop (N - m) m condition s1"
    by auto
  from h obtain n' where n': "N - m = Suc n'"
    by (cases "N - m") auto
  from h obtain s2 where "condition m s1 = Ret ((done, Some err), s2)"
    by blast
  with s1 n' have "pollLoop N 0 condition s = Ret (Some err, s2)"
    by simp
  then show "\<exists>s'. Poll clk interval timeout condition s = Ret (Some err, s')"
    using assms(1) by (auto simp: Poll_def)
next
  assume h: "m' = N'"
  have pos: "N' \<noteq> 0"
    using assms(3) by simp
  from assms(4) h have "pollLoop N' 0 (serviceExists e a name) None =
      pollLoop (N' - N') (0 + N') (serviceExists e a name) (if N' = 0 then None else Some empty_Service)"
    by (intro pollLoop_serviceExists_notfound) auto
  with pos have "pollLoop N' 0 (serviceExists e a name) None = Ret (Some ErrWaitTimeout, Some empty_Service)"
    by simp
  then show "WaitForService e a name = Ret (empty_Service, Some ErrWaitTimeout)"
    using assms(3) by (simp add: WaitForService_def Poll_def)
next
  assume h: "m' < N' \<and> Get_Service e m' (Namespace a) name = Inr svc"
  from assms(4) h have s1: "pollLoop N' 0 (serviceExists e a name) None =
      pollLoop (N' - m') (0 + m') (serviceExists e a name) (if m' = 0 then None else Some empty_Service)"
    by (intro pollLoop_serviceExists_notfound) auto
  from h obtain n' where n': "N' - m' = Suc n'"
    by (cases "N' - m'") auto
  from s1 n' h have "pollLoop N' 0 (serviceExists e a name) None = Ret (None, Some svc)"
    by (simp add: serviceExists_def)
  then show "WaitForService e a name = Ret (svc, None)"
    using assms(3) by (simp add: WaitForService_def Poll_def)
next
  assume h: "m' < N' \<and> Get_Service e m' (Namespace a) name = Inl err' \<and> \<not> IsNotFound err'"
  from assms(4) h have s1: "pollLoop N' 0 (serviceExists e a name) None =
      pollLoop (N' - m') (0 + m') (serviceExists e a name) (if m' = 0 then None else Some empty_Service)"
    by (intro pollLoop_serviceExists_notfound) auto
  from h obtain n' where n': "N' - m' = Suc n'"
    by (cases "N' - m'") auto
  from s1 n' h have "pollLoop N' 0 (serviceExists e a name) None = Ret (Some err', Some empty_Service)"
    by (simp add: serviceExists_def)
  then show "WaitForService e a name = Ret (empty_Service, Some err')"
    using assms(3) by (simp add: WaitForService_def Poll_def)
qed

theorem poll_stops_on_error_only_witness:
  "(3 :: nat) = max 1 (ticks env0 (RetryInterval awaitility0) (Timeout awaitility0)) \<and>
   Get_Service env0 0 (Namespace awaitility0) ''metrics'' = Inl (NotFound ''no service'') \<and>
   Get_Service env0 1 (Namespace awaitility0) ''metrics'' = Inl (NotFound ''no service'') \<and>
   Get_Service env0 2 (Namespace awaitility0) ''metrics'' = Inr service0 \<and>
   WaitForService env0 awaitility0 ''metrics'' = Ret (service0, None)"
proof -
  have N: "(3 :: nat) = max 1 (ticks env0 (RetryInterval awaitility0) (Timeout awaitility0))"
    by (simp add: env0_def awaitility0_def clock0_def Second_def)
  have N0: "(3 :: nat) = max 1 (clock0 Second (3 * Second))"
    by (simp add: clock0_def Second_def)
  have gets: "Get_Service env0 0 (Namespace awaitility0) ''metrics'' = Inl (NotFound ''no service'') \<and>
   Get_Service env0 1 (Namespace awaitility0) ''metrics'' = Inl (NotFound ''no service'') \<and>
   Get_Service env0 2 (Namespace awaitility0) ''metrics'' = Inr service0"
    by (simp add: env0_def)
  have nf: "\<forall>i<2. \<exists>msg. Get_Service env0 i (Namespace awaitility0) ''metrics'' = Inl (NotFound msg)"
    by (simp add: env0_def)
  have cont: "\<forall>i<2. \<forall>s. \<exists>s'. serviceExists env0 awaitility0 ''metrics'' i s = Ret ((False, None), s')"
    by (simp add: serviceExists_def env0_def)
  have "WaitForService env0 awaitility0 ''metrics'' = Ret (service0, None)"
    using poll_stops_on_error_only [where clk = clock0 and interval = Second and timeout = "3 * Second"
        and condition = "serviceExists env0 awaitility0 ''metrics''" and m = 2 and N = 3
        and e = env0 and a = awaitility0 and name = "''metrics''" and m' = 2 and N' = 3
        and svc = service0, OF N0 cont N nf] gets
    by simp
  with N gets show ?thesis
    by simp
qed

text \<open>
  Claim C1, as stated, fails: the first attempt of \<^verbatim>\<open>WaitForService\<close> on the service
  \<open>guarded\<close> returns (false, err) with an error that is not a not-found error; the
  deadline admits three attempts and the second one would find the service, but the wait
  ends at the first with that error.
\<close>

theorem WaitForService_error_counterexample:
  "serviceExists env0 awaitility0 ''guarded'' 0 None =
     Ret ((False, Some (OtherError ''forbidden'')), Some empty_Service) \<and>
   serviceExists env0 awaitility0 ''guarded'' 1 (Some empty_Service) = Ret ((True, None), Some service0) \<and>
   max 1 (ticks env0 (RetryInterval awaitility0) (Timeout awaitility0)) = 3 \<and>
   WaitForService env0 awaitility0 ''guarded'' = Ret (empty_Service, Some (OtherError ''forbidden''))"
proof -
  have n: "max 1 (ticks env0 (RetryInterval awaitility0) (Timeout awaitility0)) = Suc (Suc (Suc 0))"
    by (simp add: env0_def awaitility0_def clock0_def Second_def)
  have attempts: "serviceExists env0 awaitility0 ''guarded'' 0 None =
     Ret ((False, Some (OtherError ''forbidden'')), Some empty_Service) \<and>
   serviceExists env0 awaitility0 ''guarded'' 1 (Some empty_Service) = Ret ((True, None), Some service0)"
    by (simp add: serviceExists_def env0_def)
  have run: "WaitForService env0 awaitility0 ''guarded'' = Ret (empty_Service, Some (OtherError ''forbidden''))"
    unfolding WaitForService_def Poll_def n
    by (simp add: env0_def serviceExists_def)
  show ?thesis
    using n attempts run by simp
qed

text \<open>
  \<^verbatim>\<open>WaitForNamedToolchainClusterWithCondition\<close> returns every error of its fetch, the
  not-found error too: the ToolchainCluster \<open>late\<close> exists from the second attempt on,
  and the wait ends at the first.
\<close>

lemma WaitForNamedToolchainCluster_not_found_ends_wait:
  "WaitForNamedToolchainClusterWithCondition env0 awaitility1 ''late'' (Some ReadyToolchainCluster) =
     Ret (empty_ToolchainCluster, Some (NotFound ''no toolchaincluster''))"
proof -
  have n: "max 1 (ticks env0 (RetryInterval awaitility1) ToolchainClusterConditionTimeout) = Suc (Suc (Suc 0))"
    by (simp add: env0_def awaitility1_def awaitility0_def clock0_def Second_def ToolchainClusterConditionTimeout_def)
  show ?thesis
    unfolding WaitForNamedToolchainClusterWithCondition_def Poll_def
    using n by (simp add: env0_def namedClusterReady_def awaitility1_def awaitility0_def)
qed

end
